theory Spec2Isabelle
  imports Complex_Main
begin

section \<open>Data model\<close>

text \<open>
  The pipeline works on pandas frames.  A frame is modelled by its column labels and its
  rows, in order.  A cell is missing (\<open>NaN\<close>), a number or a string; a number is an
  integer, a finite \<open>float64\<close> value, taken as an exact real (no rounding), or one of the
  two infinities of \<open>float64\<close>.

  A column label is a Python string, given by the list of its Unicode code points: the
  code computes on labels character by character.  \<open>ascii\<close> embeds a string literal of
  the theory, whose characters are below 128.  Texts that are only compared or handed to
  a collaborator (string cells, paths, table names, stage tags) are byte strings.

  Every frame the pipeline handles comes from \<open>pd.read_csv\<close>, which renames repeated
  header names and fills short lines: its labels are pairwise distinct and every row has
  one cell per label.  The definitions do not rely on this; where a property needs it, it
  is a hypothesis (\<open>distinct (columns df)\<close>, \<open>rectangular df\<close>).
\<close>

type_synonym pystr = "nat list"

definition ascii :: "string \<Rightarrow> pystr" where
  "ascii s = map of_char s"

datatype number = IntV int | FloatV real | PosInf | NegInf

datatype cell = NaN | Num number | Str string

record dataframe =
  columns :: "pystr list"
  rows :: "cell list list"

text \<open>Exceptions of the Python code, as values.  \<open>EnvError\<close> stands for any exception
  raised by a collaborator outside the repository (network, file system, database driver).\<close>

datatype py_error = FileNotFoundError | ValueError | TypeError | KeyError | EnvError

text \<open>\<open>n < k\<close> for a number \<open>n\<close> of a frame and a finite \<open>k\<close>.\<close>

fun num_lt :: "number \<Rightarrow> real \<Rightarrow> bool" where
  "num_lt (IntV i) k = (of_int i < k)"
| "num_lt (FloatV x) k = (x < k)"
| "num_lt PosInf k = False"
| "num_lt NegInf k = True"

text \<open>\<open>df.empty\<close>: one of the two axes has length zero.\<close>

definition df_empty :: "dataframe \<Rightarrow> bool" where
  "df_empty df = (columns df = [] \<or> rows df = [])"

text \<open>\<open>len(df)\<close>\<close>

definition df_len :: "dataframe \<Rightarrow> int" where
  "df_len df = int (length (rows df))"

text \<open>Position of the first column carrying a label.\<close>

fun index_of :: "pystr \<Rightarrow> pystr list \<Rightarrow> nat" where
  "index_of x [] = 0"
| "index_of x (y # ys) = (if x = y then 0 else Suc (index_of x ys))"

text \<open>A row shorter than the header reads as missing at the absent positions.\<close>

definition cell_at :: "cell list \<Rightarrow> nat \<Rightarrow> cell" where
  "cell_at r j = (if j < length r then r ! j else NaN)"

text \<open>
  \<open>df[col]\<close> for a label that is present.  pandas hands back a one-dimensional series
  only when the label occurs once; with a repeated label the selection is a frame, which
  is \<open>None\<close> here, and every caller below fails on it in its own way.
\<close>

definition series :: "dataframe \<Rightarrow> pystr \<Rightarrow> cell list option" where
  "series df col =
     (if count_list (columns df) col = 1
      then Some (map (\<lambda>r. cell_at r (index_of col (columns df))) (rows df))
      else None)"

text \<open>\<open>df[col] = values\<close> for a label that occurs once: the column is replaced in place.\<close>

fun assign_cells :: "nat \<Rightarrow> cell list list \<Rightarrow> cell list \<Rightarrow> cell list list" where
  "assign_cells j (r # rs) (v # vs) = r[j := v] # assign_cells j rs vs"
| "assign_cells j rs vs = rs"

definition assign :: "dataframe \<Rightarrow> pystr \<Rightarrow> cell list \<Rightarrow> dataframe" where
  "assign df col vs = df\<lparr>rows := assign_cells (index_of col (columns df)) (rows df) vs\<rparr>"

section \<open>validate.py\<close>

definition required_columns :: "pystr list" where
  "required_columns =
     [(ascii ''year_of_release''), (ascii ''na_sales''), (ascii ''eu_sales''), (ascii ''jp_sales''),
      (ascii ''other_sales''), (ascii ''global_sales'')]"

definition validate_schema :: "dataframe \<Rightarrow> bool" where
  "validate_schema df =
     (let missing_columns = filter (\<lambda>col. col \<notin> set (columns df)) required_columns
      in if missing_columns \<noteq> [] then False else True)"

text \<open>The warnings \<open>validate_data_quality\<close> collects in \<open>issues\<close>.\<close>

datatype issue =
    NullValues pystr nat
  | YearsBefore1950 nat
  | NegativeSales nat

definition key_columns :: "pystr list" where
  "key_columns = [(ascii ''year_of_release''), (ascii ''global_sales'')]"

text \<open>\<open>series.isnull().sum()\<close>\<close>

definition null_count :: "cell list \<Rightarrow> nat" where
  "null_count cs = length (filter (\<lambda>c. c = NaN) cs)"

text \<open>
  \<open>series < k\<close> for a number \<open>k\<close>: a missing cell compares false, a number compares by
  value, and a string cell makes Python's comparison raise \<open>TypeError\<close>.
\<close>

fun lt_scalar :: "cell list \<Rightarrow> real \<Rightarrow> py_error + bool list" where
  "lt_scalar [] k = Inr []"
| "lt_scalar (c # cs) k =
     (case c of
        Str s \<Rightarrow> Inl TypeError
      | NaN \<Rightarrow> (case lt_scalar cs k of Inl e \<Rightarrow> Inl e | Inr bs \<Rightarrow> Inr (False # bs))
      | Num n \<Rightarrow> (case lt_scalar cs k of Inl e \<Rightarrow> Inl e | Inr bs \<Rightarrow> Inr (num_lt n k # bs)))"

text \<open>\<open>df[mask][col].count()\<close>: the cells of the column that are selected by the mask and
  not missing.\<close>

definition masked_count :: "bool list \<Rightarrow> cell list \<Rightarrow> nat" where
  "masked_count sel cs = length (filter (\<lambda>(b, c). b \<and> c \<noteq> NaN) (zip sel cs))"

text \<open>
  The first loop of \<open>validate_data_quality\<close>.  With a repeated label \<open>null_count\<close> is a
  series and \<open>if null_count > 0\<close> raises \<open>ValueError\<close>.
\<close>

fun null_issues :: "dataframe \<Rightarrow> pystr list \<Rightarrow> issue list \<Rightarrow> py_error + issue list" where
  "null_issues df [] issues = Inr issues"
| "null_issues df (col # cols) issues =
     (if col \<in> set (columns df)
      then (case series df col of
              None \<Rightarrow> Inl ValueError
            | Some cs \<Rightarrow>
                if null_count cs > 0
                then null_issues df cols (issues @ [NullValues col (null_count cs)])
                else null_issues df cols issues)
      else null_issues df cols issues)"

text \<open>One of the two range checks: the number of present cells of \<open>col\<close> below \<open>k\<close>.\<close>

definition below_count :: "dataframe \<Rightarrow> pystr \<Rightarrow> real \<Rightarrow> py_error + nat" where
  "below_count df col k =
     (case series df col of
        None \<Rightarrow> Inl ValueError
      | Some cs \<Rightarrow> (case lt_scalar cs k of
                     Inl e \<Rightarrow> Inl e
                   | Inr sel \<Rightarrow> Inr (masked_count sel cs)))"

definition year_issues :: "dataframe \<Rightarrow> issue list \<Rightarrow> py_error + issue list" where
  "year_issues df issues =
     (if (ascii ''year_of_release'') \<in> set (columns df)
      then (case below_count df (ascii ''year_of_release'') 1950 of
              Inl e \<Rightarrow> Inl e
            | Inr invalid_years \<Rightarrow>
                Inr (if invalid_years > 0 then issues @ [YearsBefore1950 invalid_years]
                     else issues))
      else Inr issues)"

definition sales_issues :: "dataframe \<Rightarrow> issue list \<Rightarrow> py_error + issue list" where
  "sales_issues df issues =
     (if (ascii ''global_sales'') \<in> set (columns df)
      then (case below_count df (ascii ''global_sales'') 0 of
              Inl e \<Rightarrow> Inl e
            | Inr negative_sales \<Rightarrow>
                Inr (if negative_sales > 0 then issues @ [NegativeSales negative_sales]
                     else issues))
      else Inr issues)"

text \<open>The result is the list of printed warnings and the returned flag.\<close>

definition validate_data_quality :: "dataframe \<Rightarrow> py_error + (issue list \<times> bool)" where
  "validate_data_quality df =
     (case null_issues df key_columns [] of
        Inl e \<Rightarrow> Inl e
      | Inr issues1 \<Rightarrow>
          (case year_issues df issues1 of
             Inl e \<Rightarrow> Inl e
           | Inr issues2 \<Rightarrow>
               (case sales_issues df issues2 of
                  Inl e \<Rightarrow> Inl e
                | Inr issues3 \<Rightarrow> Inr (issues3, True))))"

definition files_to_check :: "string list" where
  "files_to_check =
     [''data/raw/raw_dataset.csv'',
      ''data/processed/transformed_dataset.csv'',
      ''data/processed/processed_data.parquet'']"

text \<open>\<open>path_exists\<close> is \<open>Path(p).exists()\<close> at the time of the call.\<close>

definition validate_output_files :: "(string \<Rightarrow> bool) \<Rightarrow> bool" where
  "validate_output_files path_exists =
     (let missing_files = filter (\<lambda>file_path. \<not> path_exists file_path) files_to_check
      in if missing_files \<noteq> [] then False else True)"

definition comprehensive_validation ::
  "(string \<Rightarrow> bool) \<Rightarrow> dataframe \<Rightarrow> string \<Rightarrow> py_error + bool" where
  "comprehensive_validation path_exists df stage =
     (if df_empty df then Inr False
      else if stage \<in> set [''transformed'', ''output''] \<and> \<not> validate_schema df then Inr False
      else (case validate_data_quality df of
              Inl e \<Rightarrow> Inl e
            | Inr (issues, ok) \<Rightarrow>
                if \<not> ok then Inr False
                else if stage = ''output'' \<and> \<not> validate_output_files path_exists then Inr False
                else Inr True))"

section \<open>transform.py: column names\<close>

text \<open>
  \<open>str.strip()\<close> removes from both ends the characters for which \<open>str.isspace()\<close> holds;
  \<open>str.lower()\<close> maps a string to a string (a character may become several, and the
  form of a sigma depends on its neighbours).  Both tables belong to Python, not to the
  repository: \<open>isspace\<close> and \<open>lower\<close> are parameters here.  The space is the code point
  32, the underscore 95.
\<close>

definition str_strip :: "(nat \<Rightarrow> bool) \<Rightarrow> pystr \<Rightarrow> pystr" where
  "str_strip isspace s = rev (dropWhile isspace (rev (dropWhile isspace s)))"

text \<open>\<open>s.replace(' ', '_')\<close>\<close>

definition str_replace_space :: "pystr \<Rightarrow> pystr" where
  "str_replace_space s = map (\<lambda>c. if c = 32 then 95 else c) s"

definition normalize_name :: "(nat \<Rightarrow> bool) \<Rightarrow> (pystr \<Rightarrow> pystr) \<Rightarrow> pystr \<Rightarrow> pystr" where
  "normalize_name isspace lower col = str_replace_space (lower (str_strip isspace col))"

definition normalize_column_names ::
  "(nat \<Rightarrow> bool) \<Rightarrow> (pystr \<Rightarrow> pystr) \<Rightarrow> dataframe \<Rightarrow> dataframe" where
  "normalize_column_names isspace lower df =
     df\<lparr>columns := map (normalize_name isspace lower) (columns df)\<rparr>"

section \<open>transform.py: type coercion\<close>

text \<open>
  \<open>parse\<close> is the numeric reading pandas gives a string (\<open>None\<close> when it has none).
  \<open>pd.to_numeric(series, errors='coerce')\<close> yields a numeric series: every cell is a
  number or missing.
\<close>

type_synonym parser = "string \<Rightarrow> number option"

definition to_numeric_cell :: "parser \<Rightarrow> cell \<Rightarrow> number option" where
  "to_numeric_cell parse c = (case c of NaN \<Rightarrow> None | Num n \<Rightarrow> Some n | Str s \<Rightarrow> parse s)"

definition to_numeric :: "parser \<Rightarrow> cell list \<Rightarrow> number option list" where
  "to_numeric parse cs = map (to_numeric_cell parse) cs"

text \<open>A numeric series stored back into the frame.\<close>

definition numeric_cell :: "number option \<Rightarrow> cell" where
  "numeric_cell v = (case v of None \<Rightarrow> NaN | Some n \<Rightarrow> Num n)"

text \<open>\<open>.fillna(0)\<close> on a numeric series; a series with a missing cell is a float series.\<close>

definition fillna0 :: "number option list \<Rightarrow> number list" where
  "fillna0 vs = map (\<lambda>v. case v of None \<Rightarrow> FloatV 0 | Some n \<Rightarrow> n) vs"

text \<open>
  \<open>.astype(int)\<close> on a series without missing cells.  pandas first refuses a series with
  a non-finite value (\<open>IntCastingNaNError\<close>, a \<open>ValueError\<close>) and then lets numpy cast to
  \<open>int64\<close>: a float is cut towards zero, and a float outside the \<open>int64\<close> range comes out
  as the least \<open>int64\<close>; an integer outside the range (a \<open>uint64\<close> value) wraps around.
\<close>

definition finite_num :: "number \<Rightarrow> bool" where
  "finite_num n = (case n of PosInf \<Rightarrow> False | NegInf \<Rightarrow> False | _ \<Rightarrow> True)"

definition int64_min :: int where
  "int64_min = - (2 ^ 63)"

definition wrap64 :: "int \<Rightarrow> int" where
  "wrap64 i = (i + 2 ^ 63) mod 2 ^ 64 - 2 ^ 63"

definition cast_int64 :: "real \<Rightarrow> int" where
  "cast_int64 x =
     (let t = (if x < 0 then \<lceil>x\<rceil> else \<lfloor>x\<rfloor>)
      in if int64_min \<le> t \<and> t < 2 ^ 63 then t else int64_min)"

definition to_int :: "number \<Rightarrow> int" where
  "to_int n = (case n of IntV i \<Rightarrow> wrap64 i | FloatV x \<Rightarrow> cast_int64 x | _ \<Rightarrow> int64_min)"

definition astype_int :: "number list \<Rightarrow> py_error + number list" where
  "astype_int ns =
     (if list_all finite_num ns then Inr (map (\<lambda>n. IntV (to_int n)) ns) else Inl ValueError)"

definition numeric_columns :: "pystr list" where
  "numeric_columns =
     [(ascii ''Year_of_Release''), (ascii ''NA_Sales''), (ascii ''EU_Sales''), (ascii ''JP_Sales''), (ascii ''Other_Sales''),
      (ascii ''Global_Sales''), (ascii ''Critic_Score''), (ascii ''Critic_Count''), (ascii ''User_Score''), (ascii ''User_Count'')]"

text \<open>
  The loop over \<open>numeric_columns\<close>.  With a repeated label \<open>df[col]\<close> is a frame and
  \<open>pd.to_numeric\<close> raises \<open>TypeError\<close>.
\<close>

fun coerce_columns :: "parser \<Rightarrow> pystr list \<Rightarrow> dataframe \<Rightarrow> py_error + dataframe" where
  "coerce_columns parse [] df = Inr df"
| "coerce_columns parse (col # cols) df =
     (if col \<in> set (columns df)
      then (case series df col of
              None \<Rightarrow> Inl TypeError
            | Some cs \<Rightarrow>
                coerce_columns parse cols
                  (assign df col (map numeric_cell (to_numeric parse cs))))
      else coerce_columns parse cols df)"

definition transform_data_types :: "parser \<Rightarrow> dataframe \<Rightarrow> py_error + dataframe" where
  "transform_data_types parse df =
     (case coerce_columns parse numeric_columns df of
        Inl e \<Rightarrow> Inl e
      | Inr df1 \<Rightarrow>
          if (ascii ''Year_of_Release'') \<in> set (columns df1)
          then (case series df1 (ascii ''Year_of_Release'') of
                  None \<Rightarrow> Inl TypeError
                | Some cs \<Rightarrow>
                    (case astype_int (fillna0 (to_numeric parse cs)) of
                       Inl e \<Rightarrow> Inl e
                     | Inr ns \<Rightarrow> Inr (assign df1 (ascii ''Year_of_Release'') (map Num ns))))
          else Inr df1)"

section \<open>Files, sink and collaborators\<close>

text \<open>
  A CSV file is given by the frame \<open>pd.read_csv\<close> parses from it, a Parquet file by
  the frame stored in it; \<open>Other\<close> is content that \<open>pd.read_csv\<close> rejects.  The world
  holds the files by path and the tables of the sink by name.  Directory creation
  (\<open>mkdir(parents=True, exist_ok=True)\<close>) leaves both unchanged.
\<close>

datatype content = Csv dataframe | Parquet dataframe | Other

record world =
  fs :: "string \<Rightarrow> content option"
  sink :: "string \<Rightarrow> dataframe option"

text \<open>The connection string, by its parts: user, password, host, port, database.\<close>

datatype connection_string = ConnStr cell cell cell cell string

text \<open>
  What the collaborators outside the repository answer:
  \<^item> \<open>gdown\<close>: for a URL, an exception or the file left at the output path (if any);
  \<^item> \<open>parse_number\<close>: the numeric reading pandas gives a string;
  \<^item> \<open>py_isspace\<close>, \<open>py_lower\<close>: Python's \<open>str.isspace\<close> on a character and
    \<open>str.lower\<close> on a string;
  \<^item> \<open>csv_write\<close>: the file \<open>df.to_csv\<close> leaves, or an exception;
  \<^item> \<open>parquet_write\<close>: whether \<open>df.to_parquet\<close> succeeds;
  \<^item> \<open>sqlite_connect\<close>: whether \<open>sqlite3.connect\<close> succeeds on a credential store path;
  \<^item> \<open>creds_query\<close>: for the path of an existing credential store, the result frame of
    the query on its \<open>access\<close> table, or an exception;
  \<^item> \<open>create_engine\<close>: whether \<open>create_engine\<close> returns an engine;
  \<^item> \<open>connect\<close>: whether the probe connection succeeds;
  \<^item> \<open>sql_write\<close>: whether \<open>to_sql\<close> commits;
  \<^item> \<open>count_query\<close>: the sink's answer to \<open>SELECT COUNT(*)\<close> on a table;
  \<^item> \<open>sample_query\<close>: whether the three-row sample query succeeds.
\<close>

record env =
  gdown :: "string \<Rightarrow> py_error + content option"
  parse_number :: parser
  py_isspace :: "nat \<Rightarrow> bool"
  py_lower :: "pystr \<Rightarrow> pystr"
  csv_write :: "dataframe \<Rightarrow> py_error + content"
  parquet_write :: "dataframe \<Rightarrow> bool"
  sqlite_connect :: "string \<Rightarrow> bool"
  creds_query :: "string \<Rightarrow> py_error + dataframe"
  create_engine :: "connection_string \<Rightarrow> bool"
  connect :: "connection_string \<Rightarrow> bool"
  sql_write :: "string \<Rightarrow> dataframe \<Rightarrow> bool"
  count_query :: "string \<Rightarrow> py_error + int"
  sample_query :: "string \<Rightarrow> bool"

definition path_exists :: "world \<Rightarrow> string \<Rightarrow> bool" where
  "path_exists w p = (fs w p \<noteq> None)"

definition read_csv :: "world \<Rightarrow> string \<Rightarrow> py_error + dataframe" where
  "read_csv w p =
     (case fs w p of
        None \<Rightarrow> Inl FileNotFoundError
      | Some (Csv df) \<Rightarrow> Inr df
      | Some _ \<Rightarrow> Inl EnvError)"

section \<open>extract.py\<close>

definition download_dataset ::
  "env \<Rightarrow> world \<Rightarrow> string \<Rightarrow> string \<Rightarrow> (py_error + string) \<times> world" where
  "download_dataset ev w file_id output_file =
     (let url = ''https://drive.google.com/uc?id='' @ file_id;
          output_path = ''data/raw/'' @ output_file
      in case gdown ev url of
           Inl e \<Rightarrow> (Inl e, w)
         | Inr written \<Rightarrow>
             (let w' = (case written of
                          None \<Rightarrow> w
                        | Some f \<Rightarrow> w\<lparr>fs := (fs w)(output_path \<mapsto> f)\<rparr>)
              in if \<not> path_exists w' output_path then (Inl FileNotFoundError, w')
                 else (Inr output_path, w')))"

definition expected_columns :: "pystr list" where
  "expected_columns =
     [(ascii ''Year_of_Release''), (ascii ''NA_Sales''), (ascii ''EU_Sales''), (ascii ''JP_Sales''),
      (ascii ''Other_Sales''), (ascii ''Global_Sales'')]"

text \<open>What \<open>validate_raw_data\<close> prints besides the shape and the preview.\<close>

datatype diagnostic = EmptyFile | MissingColumns "pystr list" | ReadFailure py_error

text \<open>The whole body is inside \<open>try\<close>; any exception is printed and turned into \<open>False\<close>.\<close>

definition validate_raw_data :: "world \<Rightarrow> string \<Rightarrow> bool \<times> diagnostic list" where
  "validate_raw_data w file_path =
     (case read_csv w file_path of
        Inl e \<Rightarrow> (False, [ReadFailure e])
      | Inr df \<Rightarrow>
          if df_empty df then (False, [EmptyFile])
          else (let missing_columns =
                      filter (\<lambda>col. col \<notin> set (columns df)) expected_columns
                in (True, if missing_columns \<noteq> [] then [MissingColumns missing_columns]
                          else [])))"

definition extract_data ::
  "env \<Rightarrow> world \<Rightarrow> string option \<Rightarrow> string \<Rightarrow> (py_error + string) \<times> world" where
  "extract_data ev w file_id output_file =
     (let fid = (case file_id of None \<Rightarrow> ''1kk5pYKqE--lqhxEAfqsks3QVpK-LP-Ta'' | Some i \<Rightarrow> i)
      in case download_dataset ev w fid output_file of
           (Inl e, w') \<Rightarrow> (Inl e, w')
         | (Inr file_path, w') \<Rightarrow>
             if fst (validate_raw_data w' file_path) then (Inr file_path, w')
             else (Inl ValueError, w'))"

section \<open>transform.py: the stage\<close>

definition transform_data ::
  "env \<Rightarrow> world \<Rightarrow> string \<Rightarrow> string \<Rightarrow> (py_error + string) \<times> world" where
  "transform_data ev w input_file output_file =
     (let output_path = ''data/processed/'' @ output_file
      in case read_csv w input_file of
           Inl e \<Rightarrow> (Inl e, w)
         | Inr df \<Rightarrow>
             (case transform_data_types (parse_number ev) df of
                Inl e \<Rightarrow> (Inl e, w)
              | Inr df1 \<Rightarrow>
                  (case csv_write ev (normalize_column_names (py_isspace ev) (py_lower ev) df1) of
                     Inl e \<Rightarrow> (Inl e, w)
                   | Inr f \<Rightarrow> (Inr output_path, w\<lparr>fs := (fs w)(output_path \<mapsto> f)\<rparr>))))"

section \<open>load.py\<close>

text \<open>The loader object; \<open>engine\<close> is \<open>None\<close> until a connection has been set up.\<close>

record data_loader =
  engine :: "connection_string option"

text \<open>A dictionary keyed by column labels, as an association list; \<open>{}\<close> is the empty
  list.\<close>

type_synonym conn_params = "(pystr \<times> cell) list"

text \<open>\<open>result.iloc[0].to_dict()\<close>\<close>

definition first_row_dict :: "dataframe \<Rightarrow> conn_params" where
  "first_row_dict result = zip (columns result) (hd (rows result))"

text \<open>
  \<open>sqlite3.connect\<close> opens the store and, when there is no file at the path, creates an
  empty database there; on that fresh database the query raises (there is no \<open>access\<close>
  table).  Every exception ends in the \<open>except\<close> branch, which returns \<open>None\<close>.
\<close>

definition get_connection_params ::
  "env \<Rightarrow> world \<Rightarrow> string \<Rightarrow> conn_params option \<times> world" where
  "get_connection_params ev w db_path =
     (if \<not> sqlite_connect ev db_path then (None, w)
      else if fs w db_path = None then (None, w\<lparr>fs := (fs w)(db_path \<mapsto> Other)\<rparr>)
      else (case creds_query ev db_path of
              Inl err \<Rightarrow> (None, w)
            | Inr result \<Rightarrow>
                (if \<not> df_empty result then Some (first_row_dict result) else Some [], w)))"

text \<open>\<open>conn_params[key]\<close>\<close>

definition lookup :: "conn_params \<Rightarrow> pystr \<Rightarrow> py_error + cell" where
  "lookup d k = (case map_of d k of None \<Rightarrow> Inl KeyError | Some v \<Rightarrow> Inr v)"

text \<open>The f-string reads the keys in the order user, pass, url, port.\<close>

definition connection_string_of :: "conn_params \<Rightarrow> string \<Rightarrow> py_error + connection_string" where
  "connection_string_of d database_name =
     (case lookup d (ascii ''user'') of Inl e \<Rightarrow> Inl e | Inr u \<Rightarrow>
      case lookup d (ascii ''pass'') of Inl e \<Rightarrow> Inl e | Inr p \<Rightarrow>
      case lookup d (ascii ''url'') of Inl e \<Rightarrow> Inl e | Inr h \<Rightarrow>
      case lookup d (ascii ''port'') of Inl e \<Rightarrow> Inl e | Inr q \<Rightarrow>
        Inr (ConnStr u p h q database_name))"

text \<open>\<open>if not conn_params\<close> holds for \<open>None\<close> and for the empty dictionary.  The engine is
  assigned once \<open>create_engine\<close> has returned, before the probe connection.\<close>

definition setup_database_connection ::
  "env \<Rightarrow> world \<Rightarrow> data_loader \<Rightarrow> string \<Rightarrow> (py_error + bool) \<times> data_loader \<times> world" where
  "setup_database_connection ev w self database_name =
     (case get_connection_params ev w ''creds.db'' of
        (None, w1) \<Rightarrow> (Inr False, self, w1)
      | (Some d, w1) \<Rightarrow>
          if d = [] then (Inr False, self, w1)
          else (case connection_string_of d database_name of
                  Inl e \<Rightarrow> (Inl e, self, w1)
                | Inr cs \<Rightarrow>
                    if \<not> create_engine ev cs then (Inr False, self, w1)
                    else if connect ev cs then (Inr True, self\<lparr>engine := Some cs\<rparr>, w1)
                    else (Inr False, self\<lparr>engine := Some cs\<rparr>, w1)))"

text \<open>\<open>data.head(n)\<close>: the first \<open>n\<close> rows, and for negative \<open>n\<close> all rows but the last
  \<open>-n\<close>.\<close>

definition df_head :: "dataframe \<Rightarrow> int \<Rightarrow> dataframe" where
  "df_head df n =
     (if 0 \<le> n then df\<lparr>rows := take (nat n) (rows df)\<rparr>
      else df\<lparr>rows := take (nat (df_len df + n)) (rows df)\<rparr>)"

text \<open>The write replaces the table inside one transaction: it is there in full or not
  at all.\<close>

definition load_to_database ::
  "env \<Rightarrow> data_loader \<Rightarrow> world \<Rightarrow> dataframe \<Rightarrow> string \<Rightarrow> int \<Rightarrow> bool \<times> world" where
  "load_to_database ev self w data table_name max_rows =
     (if engine self = None then (False, w)
      else (let data_limited = df_head data max_rows
            in if sql_write ev table_name data_limited
               then (True, w\<lparr>sink := (sink w)(table_name \<mapsto> data_limited)\<rparr>)
               else (False, w)))"

definition save_to_parquet ::
  "env \<Rightarrow> world \<Rightarrow> dataframe \<Rightarrow> string \<Rightarrow> string option \<times> world" where
  "save_to_parquet ev w data filename =
     (let output_path = ''data/processed/'' @ filename
      in if parquet_write ev data
         then (Some output_path, w\<lparr>fs := (fs w)(output_path \<mapsto> Parquet data)\<rparr>)
         else (None, w))"

text \<open>\<open>expected_rows and row_count != expected_rows\<close>: \<open>None\<close> and \<open>0\<close> are both false.\<close>

definition count_mismatch :: "int option \<Rightarrow> int \<Rightarrow> bool" where
  "count_mismatch expected_rows row_count =
     (case expected_rows of None \<Rightarrow> False | Some e \<Rightarrow> e \<noteq> 0 \<and> row_count \<noteq> e)"

definition validate_output_data ::
  "env \<Rightarrow> data_loader \<Rightarrow> string \<Rightarrow> int option \<Rightarrow> bool" where
  "validate_output_data ev self table_name expected_rows =
     (if engine self = None then False
      else (case count_query ev table_name of
              Inl err \<Rightarrow> False
            | Inr row_count \<Rightarrow>
                if count_mismatch expected_rows row_count then False
                else if sample_query ev table_name then True else False))"

definition load_data ::
  "env \<Rightarrow> world \<Rightarrow> string \<Rightarrow> string \<Rightarrow> int \<Rightarrow> (py_error + bool) \<times> world" where
  "load_data ev w transformed_file table_name max_rows =
     (let loader = \<lparr>engine = None\<rparr>
      in case read_csv w transformed_file of
           Inl e \<Rightarrow> (Inl e, w)
         | Inr data \<Rightarrow>
             (case setup_database_connection ev w loader ''homeworks'' of
                (Inl e, loader1, w0) \<Rightarrow> (Inl e, w0)
              | (Inr ok, loader1, w0) \<Rightarrow>
                  if \<not> ok then (Inr False, w0)
                  else (case load_to_database ev loader1 w0 data table_name max_rows of
                          (written, w1) \<Rightarrow>
                            if \<not> written then (Inr False, w1)
                            else (case save_to_parquet ev w1 data ''processed_data.parquet'' of
                                    (parquet_path, w2) \<Rightarrow>
                                      if parquet_path = None then (Inr False, w2)
                                      else if \<not> validate_output_data ev loader1 table_name
                                                 (Some (min max_rows (df_len data)))
                                           then (Inr False, w2)
                                           else (Inr True, w2)))))"

section \<open>main.py\<close>

text \<open>How \<open>run_etl_pipeline\<close> ends: it returns, or \<open>sys.exit\<close> raises \<open>SystemExit\<close>, which
  \<open>except Exception\<close> does not catch.\<close>

datatype outcome = Returned | SystemExit int

text \<open>The exit code of the process whose \<open>main\<close> has called the driver.\<close>

definition exit_code :: "outcome \<Rightarrow> int" where
  "exit_code out = (case out of Returned \<Rightarrow> 0 | SystemExit n \<Rightarrow> n)"

text \<open>Stage 1 of the \<open>try\<close> block.  The value of \<open>comprehensive_validation\<close> is not bound:
  only an exception it raises has an effect.\<close>

definition extraction_stage ::
  "env \<Rightarrow> world \<Rightarrow> string option \<Rightarrow> bool \<Rightarrow> (py_error + string) \<times> world" where
  "extraction_stage ev w file_id skip_extraction =
     (if skip_extraction
      then (let raw_file = ''data/raw/raw_dataset.csv''
            in if \<not> path_exists w raw_file then (Inl FileNotFoundError, w)
               else (Inr raw_file, w))
      else (case extract_data ev w file_id ''raw_dataset.csv'' of
              (Inl e, w1) \<Rightarrow> (Inl e, w1)
            | (Inr raw_file, w1) \<Rightarrow>
                (case read_csv w1 raw_file of
                   Inl e \<Rightarrow> (Inl e, w1)
                 | Inr raw_data \<Rightarrow>
                     (case comprehensive_validation (path_exists w1) raw_data ''raw'' of
                        Inl e \<Rightarrow> (Inl e, w1)
                      | Inr ignored \<Rightarrow> (Inr raw_file, w1)))))"

text \<open>The \<open>try\<close> block: \<open>Inr success\<close> is the value of \<open>load_data\<close>.\<close>

definition pipeline_body ::
  "env \<Rightarrow> world \<Rightarrow> string option \<Rightarrow> string \<Rightarrow> int \<Rightarrow> bool \<Rightarrow> (py_error + bool) \<times> world" where
  "pipeline_body ev w file_id table_name max_rows skip_extraction =
     (case extraction_stage ev w file_id skip_extraction of
        (Inl e, w1) \<Rightarrow> (Inl e, w1)
      | (Inr raw_file, w1) \<Rightarrow>
          (case transform_data ev w1 raw_file ''transformed_dataset.csv'' of
             (Inl e, w2) \<Rightarrow> (Inl e, w2)
           | (Inr transformed_file, w2) \<Rightarrow>
               (case read_csv w2 transformed_file of
                  Inl e \<Rightarrow> (Inl e, w2)
                | Inr transformed_data \<Rightarrow>
                    (case comprehensive_validation (path_exists w2) transformed_data
                            ''transformed'' of
                       Inl e \<Rightarrow> (Inl e, w2)
                     | Inr ignored \<Rightarrow>
                         load_data ev w2 transformed_file table_name max_rows))))"

definition run_etl_pipeline ::
  "env \<Rightarrow> world \<Rightarrow> string option \<Rightarrow> string \<Rightarrow> int \<Rightarrow> bool \<Rightarrow> outcome \<times> world" where
  "run_etl_pipeline ev w file_id table_name max_rows skip_extraction =
     (case pipeline_body ev w file_id table_name max_rows skip_extraction of
        (Inl e, w') \<Rightarrow> (SystemExit 1, w')
      | (Inr success, w') \<Rightarrow> if success then (Returned, w') else (SystemExit 1, w'))"

section \<open>Auxiliary notions for the properties\<close>

text \<open>A cell that is not a string, and a column that is either absent or selectable as a
  series without string cells.\<close>

definition no_str :: "cell \<Rightarrow> bool" where
  "no_str c = (case c of Str s \<Rightarrow> False | _ \<Rightarrow> True)"

definition numeric_or_absent :: "dataframe \<Rightarrow> pystr \<Rightarrow> bool" where
  "numeric_or_absent df col =
     (if col \<in> set (columns df)
      then (case series df col of None \<Rightarrow> False | Some cs \<Rightarrow> list_all no_str cs)
      else True)"

text \<open>A string without whitespace at either end.\<close>

definition trimmed :: "(nat \<Rightarrow> bool) \<Rightarrow> pystr \<Rightarrow> bool" where
  "trimmed isspace s = (s = [] \<or> (\<not> isspace (hd s) \<and> \<not> isspace (last s)))"

text \<open>Every row has one cell per column label.\<close>

definition rectangular :: "dataframe \<Rightarrow> bool" where
  "rectangular df = list_all (\<lambda>r. length r = length (columns df)) (rows df)"

text \<open>No cell of the \<open>Year_of_Release\<close> column reads as an infinite number.\<close>

definition year_finite :: "parser \<Rightarrow> dataframe \<Rightarrow> bool" where
  "year_finite parse df =
     (if (ascii ''Year_of_Release'') \<in> set (columns df)
      then list_all
             (\<lambda>r. case to_numeric_cell parse
                          (cell_at r (index_of (ascii ''Year_of_Release'') (columns df))) of
                     None \<Rightarrow> True
                   | Some n \<Rightarrow> finite_num n)
             (rows df)
      else True)"

text \<open>The effect of the coercion loop and of the year conversion on one cell, and of the
  loop on one row; \<open>coerce_columns_rows\<close> and \<open>transform_data_types_rows\<close> below relate
  them to the definitions above.\<close>

definition coerce_cell :: "parser \<Rightarrow> cell \<Rightarrow> cell" where
  "coerce_cell parse c = numeric_cell (to_numeric_cell parse c)"

definition year_cell :: "parser \<Rightarrow> cell \<Rightarrow> cell" where
  "year_cell parse c =
     Num (IntV (to_int (case to_numeric_cell parse c of None \<Rightarrow> FloatV 0 | Some n \<Rightarrow> n)))"

fun coerce_row :: "parser \<Rightarrow> pystr list \<Rightarrow> pystr list \<Rightarrow> cell list \<Rightarrow> cell list" where
  "coerce_row parse [] hdr r = r"
| "coerce_row parse (col # cols) hdr r =
     (if col \<in> set hdr
      then coerce_row parse cols hdr
             (r[index_of col hdr := coerce_cell parse (cell_at r (index_of col hdr))])
      else coerce_row parse cols hdr r)"

section \<open>Example inputs\<close>

text \<open>The whitespace and case tables of Python on the code points below 128 (whitespace:
  9 to 13 and 28 to 32; capital letters: 65 to 90), leaving every other code point
  unclassified and unchanged.\<close>

definition ascii_isspace :: "nat \<Rightarrow> bool" where
  "ascii_isspace n = ((9 \<le> n \<and> n \<le> 13) \<or> (28 \<le> n \<and> n \<le> 32))"

definition ascii_lower_char :: "nat \<Rightarrow> nat" where
  "ascii_lower_char n = (if 65 \<le> n \<and> n \<le> 90 then n + 32 else n)"

definition ascii_lower :: "pystr \<Rightarrow> pystr" where
  "ascii_lower s = map ascii_lower_char s"

text \<open>Frames.\<close>

definition frame_spaced_labels :: dataframe where
  "frame_spaced_labels =
     \<lparr>columns = [ascii ''  Year of Release '', (ascii ''NA_Sales'')],
      rows = [[Num (IntV 2006), Num (FloatV 41.36)]]\<rparr>"

definition frame_year_text :: dataframe where
  "frame_year_text = \<lparr>columns = [(ascii ''year_of_release'')], rows = [[Str ''tbd'']]\<rparr>"

definition frame_sales_text :: dataframe where
  "frame_sales_text =
     \<lparr>columns = [(ascii ''Name''), (ascii ''global_sales'')], rows = [[Str ''Tetris'', Str ''unknown'']]\<rparr>"

definition frame_two_keys :: dataframe where
  "frame_two_keys =
     \<lparr>columns = [(ascii ''year_of_release''), (ascii ''global_sales'')],
      rows = [[Num (IntV 1900), Num (FloatV (-1))], [NaN, NaN]]\<rparr>"

definition frame_no_rows :: dataframe where
  "frame_no_rows = \<lparr>columns = [(ascii ''Name'')], rows = []\<rparr>"

definition no_files :: "string \<Rightarrow> bool" where
  "no_files p = False"

definition frame_name_only :: dataframe where
  "frame_name_only = \<lparr>columns = [(ascii ''Name'')], rows = [[Str ''Tetris'']]\<rparr>"

text \<open>Worlds.\<close>

definition empty_world :: world where
  "empty_world = \<lparr>fs = (\<lambda>p. None), sink = (\<lambda>t. None)\<rparr>"

definition store_world :: world where
  "store_world = empty_world\<lparr>fs := (fs empty_world)(''creds.db'' \<mapsto> Other)\<rparr>"

definition raw_world :: world where
  "raw_world =
     store_world\<lparr>fs := (fs store_world)(''data/raw/raw_dataset.csv'' \<mapsto> Csv frame_name_only)\<rparr>"

text \<open>Collaborators, loader and staged data for runs of the load stage and of the driver.\<close>

definition sample_creds :: dataframe where
  "sample_creds =
     \<lparr>columns = [(ascii ''url''), (ascii ''port''), (ascii ''user''), (ascii ''pass'')],
      rows = [[Str ''localhost'', Num (IntV 5432), Str ''etl'', Str ''secret'']]\<rparr>"

definition no_creds :: dataframe where
  "no_creds = \<lparr>columns = [(ascii ''url''), (ascii ''port''), (ascii ''user''), (ascii ''pass'')], rows = []\<rparr>"

definition sample_env :: env where
  "sample_env =
     \<lparr>gdown = (\<lambda>url. Inr (Some (Csv frame_name_only))),
      parse_number = (\<lambda>s. None),
      py_isspace = ascii_isspace,
      py_lower = ascii_lower,
      csv_write = (\<lambda>df. Inr (Csv df)),
      parquet_write = (\<lambda>df. True),
      sqlite_connect = (\<lambda>db_path. True),
      creds_query = (\<lambda>db_path. Inr sample_creds),
      create_engine = (\<lambda>cs. True),
      connect = (\<lambda>cs. True),
      sql_write = (\<lambda>t df. True),
      count_query = (\<lambda>t. Inr 1),
      sample_query = (\<lambda>t. True)\<rparr>"

definition short_count_env :: env where
  "short_count_env = sample_env\<lparr>count_query := (\<lambda>t. Inr 49)\<rparr>"

definition empty_store_env :: env where
  "empty_store_env = sample_env\<lparr>creds_query := (\<lambda>db_path. Inr no_creds)\<rparr>"

definition sample_loader :: data_loader where
  "sample_loader =
     \<lparr>engine = Some (ConnStr (Str ''etl'') (Str ''secret'') (Str ''localhost'')
                        (Num (IntV 5432)) ''homeworks'')\<rparr>"

definition three_rows :: dataframe where
  "three_rows = \<lparr>columns = [(ascii ''name'')], rows = [[Str ''a''], [Str ''b''], [Str ''c'']]\<rparr>"

definition fifty_rows :: dataframe where
  "fifty_rows = \<lparr>columns = [(ascii ''name'')], rows = replicate 50 [Str ''Tetris'']\<rparr>"

definition three_world :: world where
  "three_world =
     store_world\<lparr>fs := (fs store_world)(''data/processed/transformed_dataset.csv'' \<mapsto> Csv three_rows)\<rparr>"

definition fifty_world :: world where
  "fifty_world =
     store_world\<lparr>fs := (fs store_world)(''data/processed/transformed_dataset.csv'' \<mapsto> Csv fifty_rows)\<rparr>"

definition lowered_name_only :: dataframe where
  "lowered_name_only = \<lparr>columns = [(ascii ''name'')], rows = [[Str ''Tetris'']]\<rparr>"

definition transformed_world :: world where
  "transformed_world =
     raw_world\<lparr>fs := (fs raw_world)(''data/processed/transformed_dataset.csv'' \<mapsto> Csv lowered_name_only)\<rparr>"

definition written_world :: world where
  "written_world =
     transformed_world\<lparr>sink := (sink transformed_world)(''rakhimkulov'' \<mapsto> lowered_name_only)\<rparr>"

definition loaded_world :: world where
  "loaded_world =
     written_world\<lparr>fs := (fs written_world)(''data/processed/processed_data.parquet'' \<mapsto> Parquet lowered_name_only)\<rparr>"

text \<open>A raw frame with unparsable cells, and a parser that reads one numeral.\<close>

definition raw_games :: dataframe where
  "raw_games =
     \<lparr>columns = [(ascii ''Name''), (ascii ''Year_of_Release''), (ascii ''Global_Sales''), (ascii ''User_Score'')],
      rows = [[Str ''Wii Sports'', Num (FloatV 2006), Num (FloatV 82.53), Str ''8''],
              [Str ''Madden NFL'', Str ''N/A'', Num (FloatV 3.5), Str ''tbd'']]\<rparr>"

definition digits_only :: parser where
  "digits_only s = (if s = ''8'' then Some (IntV 8) else None)"

text \<open>A raw frame whose year column holds an unparsable text and the text of the infinite
  float, and a parser that reads the latter.\<close>

definition frame_year_inf :: dataframe where
  "frame_year_inf =
     \<lparr>columns = [(ascii ''Name''), (ascii ''Year_of_Release'')],
      rows = [[Str ''Madden NFL'', Str ''N/A''], [Str ''Tetris'', Str ''inf'']]\<rparr>"

definition reads_inf :: parser where
  "reads_inf s = (if s = ''inf'' then Some PosInf else None)"

section \<open>Properties of the column-name normalisation\<close>

lemma ascii_eq_iff [simp]: "ascii a = ascii b \<longleftrightarrow> a = b"
proof -
  have "inj (of_char :: char \<Rightarrow> nat)" by (rule inj_of_char)
  then show ?thesis unfolding ascii_def by (rule inj_map_eq_map)
qed

lemma str_strip_id: "trimmed isspace s \<Longrightarrow> str_strip isspace s = s"
proof (cases "s = []")
  case True
  then show ?thesis by (simp add: str_strip_def)
next
  case False
  assume "trimmed isspace s"
  with False have h: "\<not> isspace (hd s)" and l: "\<not> isspace (last s)"
    by (auto simp: trimmed_def)
  from h False have 1: "dropWhile isspace s = s"
    by (simp add: dropWhile_eq_self_iff)
  from l False have 2: "dropWhile isspace (rev s) = rev s"
    by (simp add: dropWhile_eq_self_iff hd_rev)
  show ?thesis by (simp add: str_strip_def 1 2)
qed

lemma last_dropWhile_nonempty:
  "dropWhile P xs \<noteq> [] \<Longrightarrow> last (dropWhile P xs) = last xs"
  by (induction xs) (auto split: if_splits)

lemma str_strip_trimmed: "trimmed isspace (str_strip isspace s)"
proof (cases "str_strip isspace s = []")
  case True
  then show ?thesis by (simp add: trimmed_def)
next
  case False
  define t where "t = dropWhile isspace s"
  define u where "u = dropWhile isspace (rev t)"
  have su: "str_strip isspace s = rev u" by (simp add: str_strip_def t_def u_def)
  with False have u: "u \<noteq> []" by simp
  then have t: "t \<noteq> []" by (auto simp: u_def)
  from u have "\<not> isspace (hd u)" unfolding u_def by (rule hd_dropWhile)
  with u have l: "\<not> isspace (last (rev u))" by (simp add: last_rev)
  from u have "last u = last (rev t)" unfolding u_def by (rule last_dropWhile_nonempty)
  with t have "last u = hd t" by (simp add: last_rev)
  moreover from t have "\<not> isspace (hd t)" unfolding t_def by (rule hd_dropWhile)
  ultimately have "\<not> isspace (hd (rev u))" using u by (simp add: hd_rev)
  with l su show ?thesis by (simp add: trimmed_def)
qed

lemma replace_space_trimmed:
  assumes "\<not> isspace 95" and "trimmed isspace s"
  shows "trimmed isspace (str_replace_space s)"
proof (cases "s = []")
  case True
  then show ?thesis by (simp add: trimmed_def str_replace_space_def)
next
  case False
  with assms show ?thesis
    by (auto simp: trimmed_def str_replace_space_def hd_map last_map)
qed

lemma replace_space_idem: "str_replace_space (str_replace_space s) = str_replace_space s"
  by (simp add: str_replace_space_def)

lemma replace_space_no_space: "32 \<notin> set (str_replace_space s)"
  by (auto simp: str_replace_space_def)

lemma lower_replace_fixed:
  assumes stay: "\<And>s. (\<forall>c \<in> set s. lower [c] = [c]) \<Longrightarrow> lower s = s"
    and low: "\<And>s c. c \<in> set (lower s) \<Longrightarrow> lower [c] = [c]"
    and und: "lower [95] = [95]"
  shows "lower (str_replace_space (lower t)) = str_replace_space (lower t)"
proof (rule stay, rule ballI)
  fix c
  assume "c \<in> set (str_replace_space (lower t))"
  then have "c = 95 \<or> c \<in> set (lower t)"
    by (auto simp: str_replace_space_def split: if_splits)
  then show "lower [c] = [c]" using low und by auto
qed

lemma normalize_name_fixed:
  assumes us: "\<not> isspace 95"
    and trim: "\<And>s. trimmed isspace s \<Longrightarrow> trimmed isspace (lower s)"
    and stay: "\<And>s. (\<forall>c \<in> set s. lower [c] = [c]) \<Longrightarrow> lower s = s"
    and low: "\<And>s c. c \<in> set (lower s) \<Longrightarrow> lower [c] = [c]"
    and und: "lower [95] = [95]"
  shows "str_strip isspace (normalize_name isspace lower col) = normalize_name isspace lower col"
    and "lower (normalize_name isspace lower col) = normalize_name isspace lower col"
    and "32 \<notin> set (normalize_name isspace lower col)"
    and "normalize_name isspace lower (normalize_name isspace lower col) =
         normalize_name isspace lower col"
proof -
  let ?n = "normalize_name isspace lower col"
  have "trimmed isspace (lower (str_strip isspace col))"
    by (rule trim) (rule str_strip_trimmed)
  then have "trimmed isspace ?n"
    unfolding normalize_name_def using us by (simp add: replace_space_trimmed)
  then show s: "str_strip isspace ?n = ?n" by (rule str_strip_id)
  show l: "lower ?n = ?n"
    unfolding normalize_name_def by (rule lower_replace_fixed [OF stay low und])
  show "32 \<notin> set ?n"
    unfolding normalize_name_def by (rule replace_space_no_space)
  have "normalize_name isspace lower ?n = str_replace_space ?n"
    by (simp add: normalize_name_def [of isspace lower ?n] s l)
  also have "\<dots> = ?n"
    unfolding normalize_name_def by (rule replace_space_idem)
  finally show "normalize_name isspace lower ?n = ?n" .
qed

lemma ascii_tables:
  "\<not> ascii_isspace 95"
  "trimmed ascii_isspace s \<Longrightarrow> trimmed ascii_isspace (ascii_lower s)"
  "(\<forall>c \<in> set s. ascii_lower [c] = [c]) \<Longrightarrow> ascii_lower s = s"
  "c \<in> set (ascii_lower s) \<Longrightarrow> ascii_lower [c] = [c]"
  "ascii_lower [95] = [95]"
proof -
  show "\<not> ascii_isspace 95" by (simp add: ascii_isspace_def)
  have sp: "ascii_isspace (ascii_lower_char n) = ascii_isspace n" for n
    by (auto simp: ascii_isspace_def ascii_lower_char_def)
  show "trimmed ascii_isspace (ascii_lower s)" if "trimmed ascii_isspace s"
    using that by (cases "s = []") (auto simp: trimmed_def ascii_lower_def hd_map last_map sp)
  show "ascii_lower s = s" if "\<forall>c \<in> set s. ascii_lower [c] = [c]"
    using that by (simp add: ascii_lower_def map_idI)
  show "ascii_lower [c] = [c]" if "c \<in> set (ascii_lower s)"
    using that by (auto simp: ascii_lower_def ascii_lower_char_def)
  show "ascii_lower [95] = [95]" by (simp add: ascii_lower_def ascii_lower_char_def)
qed

lemma normalize_spaced_labels:
  "columns (normalize_column_names ascii_isspace ascii_lower frame_spaced_labels) =
     [ascii ''year_of_release'', ascii ''na_sales'']"
  by code_simp

text \<open>
  Claim C4.  Python's \<open>str.isspace\<close> and \<open>str.lower\<close> enter as parameters, with what is
  used of them: the underscore is not whitespace; lower-casing a string without
  whitespace at its ends gives such a string; lower-casing yields only characters that
  it leaves unchanged, a string of such characters is left unchanged, and the underscore
  is one of them.  Then every name that \<open>normalize_column_names\<close> produces is trimmed,
  in lower case and free of spaces, and \<open>normalize_column_names\<close> is idempotent: applied
  to its own result it changes nothing, so the column names after two applications are
  those after one.
\<close>

theorem normalize_column_names_idempotent:
  assumes us: "\<not> isspace 95"
    and trim: "\<And>s. trimmed isspace s \<Longrightarrow> trimmed isspace (lower s)"
    and stay: "\<And>s. (\<forall>c \<in> set s. lower [c] = [c]) \<Longrightarrow> lower s = s"
    and low: "\<And>s c. c \<in> set (lower s) \<Longrightarrow> lower [c] = [c]"
    and und: "lower [95] = [95]"
  shows "normalize_column_names isspace lower (normalize_column_names isspace lower D) =
           normalize_column_names isspace lower D \<and>
         (\<forall>n \<in> set (columns (normalize_column_names isspace lower D)).
            str_strip isspace n = n \<and> lower n = n \<and> 32 \<notin> set n)"
  using normalize_name_fixed [OF us trim stay low und]
  by (auto simp: normalize_column_names_def)

theorem normalize_column_names_idempotent_witness:
  "\<not> ascii_isspace 95 \<and> ascii_lower [95] = [95] \<and>
   columns (normalize_column_names ascii_isspace ascii_lower frame_spaced_labels) =
     [ascii ''year_of_release'', ascii ''na_sales''] \<and>
   normalize_column_names ascii_isspace ascii_lower
     (normalize_column_names ascii_isspace ascii_lower frame_spaced_labels) =
   normalize_column_names ascii_isspace ascii_lower frame_spaced_labels"
  using normalize_column_names_idempotent [of ascii_isspace ascii_lower frame_spaced_labels,
      OF ascii_tables] ascii_tables(1,5) normalize_spaced_labels
  by simp

section \<open>Properties of the validator\<close>

text \<open>
  Claim C2.  On an empty dataset \<open>comprehensive_validation\<close> returns false, whatever the
  stage tag and whatever files exist.
\<close>

theorem comprehensive_validation_empty:
  "df_empty D \<Longrightarrow> comprehensive_validation files D stage = Inr False"
  by (simp add: comprehensive_validation_def)

theorem comprehensive_validation_empty_witness:
  "df_empty frame_no_rows \<and>
   comprehensive_validation no_files frame_no_rows ''transformed'' = Inr False"
proof -
  have e: "df_empty frame_no_rows" by (simp add: df_empty_def frame_no_rows_def)
  show ?thesis using e comprehensive_validation_empty [OF e, of no_files "''transformed''"] by simp
qed

lemma lt_scalar_numeric: "list_all no_str cs \<Longrightarrow> \<exists>bs. lt_scalar cs k = Inr bs"
proof (induction cs)
  case Nil
  then show ?case by simp
next
  case (Cons c cs)
  then obtain bs where "lt_scalar cs k = Inr bs" by auto
  with Cons.prems show ?case by (cases c) (simp_all add: no_str_def)
qed

lemma below_count_numeric:
  "series df col = Some cs \<Longrightarrow> list_all no_str cs \<Longrightarrow> \<exists>n. below_count df col k = Inr n"
  using lt_scalar_numeric [of cs k] by (auto simp: below_count_def)

lemma null_issues_total:
  "(\<And>col. col \<in> set cols \<Longrightarrow> numeric_or_absent df col) \<Longrightarrow>
   \<exists>out. null_issues df cols issues = Inr out"
proof (induction cols arbitrary: issues)
  case Nil
  then show ?case by simp
next
  case (Cons col cols)
  have rest: "\<exists>out. null_issues df cols acc = Inr out" for acc
    by (rule Cons.IH) (simp add: Cons.prems)
  have here: "numeric_or_absent df col" by (simp add: Cons.prems)
  show ?case
  proof (cases "col \<in> set (columns df)")
    case False
    then show ?thesis using rest by simp
  next
    case True
    with here obtain cs where "series df col = Some cs"
      by (auto simp: numeric_or_absent_def split: option.splits)
    with True show ?thesis using rest by simp
  qed
qed

lemma year_issues_total:
  "numeric_or_absent df (ascii ''year_of_release'') \<Longrightarrow> \<exists>out. year_issues df issues = Inr out"
proof (cases "(ascii ''year_of_release'') \<in> set (columns df)")
  case False
  then show ?thesis by (simp add: year_issues_def)
next
  case True
  assume "numeric_or_absent df (ascii ''year_of_release'')"
  with True obtain cs where "series df (ascii ''year_of_release'') = Some cs" "list_all no_str cs"
    by (auto simp: numeric_or_absent_def split: option.splits)
  then obtain n where "below_count df (ascii ''year_of_release'') 1950 = Inr n"
    using below_count_numeric by blast
  with True show ?thesis by (simp add: year_issues_def)
qed

lemma sales_issues_total:
  "numeric_or_absent df (ascii ''global_sales'') \<Longrightarrow> \<exists>out. sales_issues df issues = Inr out"
proof (cases "(ascii ''global_sales'') \<in> set (columns df)")
  case False
  then show ?thesis by (simp add: sales_issues_def)
next
  case True
  assume "numeric_or_absent df (ascii ''global_sales'')"
  with True obtain cs where "series df (ascii ''global_sales'') = Some cs" "list_all no_str cs"
    by (auto simp: numeric_or_absent_def split: option.splits)
  then obtain n where "below_count df (ascii ''global_sales'') 0 = Inr n"
    using below_count_numeric by blast
  with True show ?thesis by (simp add: sales_issues_def)
qed

lemma validate_data_quality_numeric:
  assumes y: "numeric_or_absent df (ascii ''year_of_release'')"
    and g: "numeric_or_absent df (ascii ''global_sales'')"
  shows "\<exists>issues. validate_data_quality df = Inr (issues, True)"
proof -
  have "\<And>col. col \<in> set key_columns \<Longrightarrow> numeric_or_absent df col"
    using y g by (auto simp: key_columns_def)
  then obtain i1 where 1: "null_issues df key_columns [] = Inr i1"
    using null_issues_total by blast
  obtain i2 where 2: "year_issues df i1 = Inr i2"
    using year_issues_total [OF y] by blast
  obtain i3 where 3: "sales_issues df i2 = Inr i3"
    using sales_issues_total [OF g] by blast
  show ?thesis by (simp add: validate_data_quality_def 1 2 3)
qed

lemma validate_schema_missing:
  "c \<in> set required_columns \<Longrightarrow> c \<notin> set (columns df) \<Longrightarrow> \<not> validate_schema df"
  by (auto simp: validate_schema_def Let_def filter_empty_conv)

lemma frame_two_keys_numeric:
  "numeric_or_absent frame_two_keys (ascii ''year_of_release'')"
  "numeric_or_absent frame_two_keys (ascii ''global_sales'')"
  by (simp_all add: frame_two_keys_def numeric_or_absent_def series_def cell_at_def no_str_def)

text \<open>
  Claim C3, as amended.  For every dataset whose \<open>year_of_release\<close> and \<open>global_sales\<close>
  columns, where present, occur once and hold only numbers or missing cells,
  \<open>validate_data_quality\<close> returns true; and \<open>validate_schema\<close> returns false for every
  dataset that misses one of the six required columns.
\<close>

theorem schema_quality_asymmetry:
  "(\<forall>c \<in> set required_columns. c \<notin> set (columns D) \<longrightarrow> validate_schema D = False) \<and>
   (numeric_or_absent D (ascii ''year_of_release'') \<and>
    numeric_or_absent D (ascii ''global_sales'') \<longrightarrow>
      (\<exists>issues. validate_data_quality D = Inr (issues, True)))"
  using validate_data_quality_numeric [of D] validate_schema_missing [of _ D] by auto

theorem schema_quality_asymmetry_witness:
  "(ascii ''na_sales'') \<in> set required_columns \<and>
   (ascii ''na_sales'') \<notin> set (columns frame_two_keys) \<and>
   (ascii ''na_sales'') \<notin> set (columns frame_year_text) \<and>
   numeric_or_absent frame_two_keys (ascii ''year_of_release'') \<and>
   numeric_or_absent frame_two_keys (ascii ''global_sales'') \<and>
   validate_schema frame_two_keys = False \<and>
   validate_schema frame_year_text = False \<and>
   (\<exists>issues. validate_data_quality frame_two_keys = Inr (issues, True))"
proof -
  have m: "(ascii ''na_sales'') \<in> set required_columns"
    "(ascii ''na_sales'') \<notin> set (columns frame_two_keys)"
    "(ascii ''na_sales'') \<notin> set (columns frame_year_text)"
    by (simp_all add: required_columns_def frame_two_keys_def frame_year_text_def)
  show ?thesis
    using schema_quality_asymmetry [of frame_two_keys] schema_quality_asymmetry [of frame_year_text]
      frame_two_keys_numeric m
    by blast
qed

text \<open>
  Claim C3 as stated fails: a dataset with a \<open>year_of_release\<close> column that holds a
  string misses required columns, fails the schema check, and \<open>validate_data_quality\<close>
  raises \<open>TypeError\<close> on it instead of returning true.
\<close>

theorem validate_data_quality_raises:
  "(ascii ''na_sales'') \<in> set required_columns \<and> (ascii ''na_sales'') \<notin> set (columns frame_year_text) \<and>
   validate_schema frame_year_text = False \<and>
   validate_data_quality frame_year_text = Inl TypeError"
  by (simp add: frame_year_text_def required_columns_def validate_schema_def
      validate_data_quality_def key_columns_def series_def cell_at_def null_count_def
      year_issues_def below_count_def)

text \<open>
  Claim C10, as amended.  For every non-empty dataset whose \<open>year_of_release\<close> and
  \<open>global_sales\<close> columns, where present, occur once and hold only numbers or missing
  cells, \<open>comprehensive_validation\<close> at the raw stage returns true.
\<close>

theorem raw_validation_nonempty:
  assumes "\<not> df_empty D"
    and "numeric_or_absent D (ascii ''year_of_release'')"
    and "numeric_or_absent D (ascii ''global_sales'')"
  shows "comprehensive_validation files D ''raw'' = Inr True"
proof -
  obtain issues where "validate_data_quality D = Inr (issues, True)"
    using validate_data_quality_numeric [OF assms(2,3)] by blast
  with assms(1) show ?thesis by (simp add: comprehensive_validation_def)
qed

theorem raw_validation_nonempty_witness:
  "\<not> df_empty frame_two_keys \<and>
   numeric_or_absent frame_two_keys (ascii ''year_of_release'') \<and>
   numeric_or_absent frame_two_keys (ascii ''global_sales'') \<and>
   comprehensive_validation no_files frame_two_keys ''raw'' = Inr True"
proof -
  have ne: "\<not> df_empty frame_two_keys" by (simp add: df_empty_def frame_two_keys_def)
  show ?thesis
    using raw_validation_nonempty [OF ne frame_two_keys_numeric, of no_files] ne
      frame_two_keys_numeric by simp
qed

text \<open>
  Claim C10 as stated fails: on a non-empty dataset whose \<open>global_sales\<close> column holds a
  string, \<open>comprehensive_validation\<close> at the raw stage raises \<open>TypeError\<close>.
\<close>

theorem raw_validation_raises:
  "\<not> df_empty frame_sales_text \<and>
   comprehensive_validation no_files frame_sales_text ''raw'' = Inl TypeError"
  by (simp add: frame_sales_text_def df_empty_def comprehensive_validation_def
      validate_data_quality_def key_columns_def series_def cell_at_def null_count_def
      year_issues_def sales_issues_def below_count_def)

section \<open>Properties of the extractor\<close>



section \<open>Properties of the type coercion\<close>

lemma index_of_less: "x \<in> set xs \<Longrightarrow> index_of x xs < length xs"
  by (induction xs) auto

lemma nth_index_of: "x \<in> set xs \<Longrightarrow> xs ! index_of x xs = x"
  by (induction xs) auto

lemma index_of_inject:
  "x \<in> set xs \<Longrightarrow> y \<in> set xs \<Longrightarrow> index_of x xs = index_of y xs \<Longrightarrow> x = y"
  using nth_index_of by metis

lemma count_list_distinct: "distinct xs \<Longrightarrow> x \<in> set xs \<Longrightarrow> count_list xs x = 1"
  by (induction xs) auto

lemma series_distinct:
  "distinct (columns df) \<Longrightarrow> col \<in> set (columns df) \<Longrightarrow>
   series df col = Some (map (\<lambda>r. cell_at r (index_of col (columns df))) (rows df))"
  by (simp add: series_def count_list_distinct)

lemma assign_cells_map: "assign_cells j rs (map g rs) = map (\<lambda>r. r[j := g r]) rs"
  by (induction rs) simp_all

lemma assign_column:
  "assign df col (map f (map (\<lambda>r. cell_at r j) (rows df))) =
   df\<lparr>rows := map (\<lambda>r. r[index_of col (columns df) := f (cell_at r j)]) (rows df)\<rparr>"
  using assign_cells_map [of "index_of col (columns df)" "rows df" "\<lambda>r. f (cell_at r j)"]
  by (simp add: assign_def comp_def)

lemma coerce_columns_rows:
  "distinct (columns df) \<Longrightarrow>
   coerce_columns parse cols df =
     Inr (df\<lparr>rows := map (coerce_row parse cols (columns df)) (rows df)\<rparr>)"
proof (induction cols arbitrary: df)
  case Nil
  then show ?case by simp
next
  case (Cons col cols)
  show ?case
  proof (cases "col \<in> set (columns df)")
    case False
    then show ?thesis using Cons by simp
  next
    case True
    let ?j = "index_of col (columns df)"
    let ?df = "df\<lparr>rows := map (\<lambda>r. r[?j := coerce_cell parse (cell_at r ?j)]) (rows df)\<rparr>"
    have a: "assign df col (map numeric_cell (to_numeric parse (map (\<lambda>r. cell_at r ?j) (rows df)))) = ?df"
      using assign_column [of df col "coerce_cell parse" ?j]
      by (simp add: to_numeric_def coerce_cell_def comp_def)
    have "distinct (columns ?df)" using Cons.prems by simp
    then have "coerce_columns parse cols ?df =
       Inr (?df\<lparr>rows := map (coerce_row parse cols (columns ?df)) (rows ?df)\<rparr>)"
      by (rule Cons.IH)
    then show ?thesis
      using True Cons.prems by (simp add: series_distinct a comp_def)
  qed
qed

lemma cell_at_update:
  "cell_at (r[j' := v]) j = (if j = j' \<and> j < length r then v else cell_at r j)"
  by (simp add: cell_at_def)

lemma length_coerce_row: "length (coerce_row parse cols hdr r) = length r"
  by (induction cols arbitrary: r) simp_all

lemma coerce_cell_idem: "coerce_cell parse (coerce_cell parse c) = coerce_cell parse c"
  by (cases c) (auto simp: coerce_cell_def to_numeric_cell_def numeric_cell_def split: option.splits)

lemma coerce_row_fixed:
  "coerce_cell parse (cell_at r j) = cell_at r j \<Longrightarrow>
   cell_at (coerce_row parse cols hdr r) j = cell_at r j"
proof (induction cols arbitrary: r)
  case Nil
  then show ?case by simp
next
  case (Cons c cols)
  let ?r = "r[index_of c hdr := coerce_cell parse (cell_at r (index_of c hdr))]"
  have same: "cell_at ?r j = cell_at r j"
    using Cons.prems by (auto simp: cell_at_update)
  then have "coerce_cell parse (cell_at ?r j) = cell_at ?r j"
    using Cons.prems by simp
  then have upd: "cell_at (coerce_row parse cols hdr ?r) j = cell_at r j"
    using Cons.IH [of ?r] same by simp
  have keep: "cell_at (coerce_row parse cols hdr r) j = cell_at r j"
    using Cons.prems by (rule Cons.IH)
  show ?case
    by (cases "c \<in> set hdr") (simp_all add: upd keep)
qed

lemma coerce_row_member:
  "col \<in> set cols \<Longrightarrow> col \<in> set hdr \<Longrightarrow>
   cell_at (coerce_row parse cols hdr r) (index_of col hdr) =
     coerce_cell parse (cell_at r (index_of col hdr))"
proof (induction cols arbitrary: r)
  case Nil
  then show ?case by simp
next
  case (Cons c cols)
  let ?j = "index_of col hdr"
  show ?case
  proof (cases "c \<in> set hdr")
    case False
    with Cons show ?thesis by auto
  next
    case True
    let ?r = "r[index_of c hdr := coerce_cell parse (cell_at r (index_of c hdr))]"
    show ?thesis
    proof (cases "index_of c hdr = ?j")
      case same: True
      have "cell_at ?r ?j = coerce_cell parse (cell_at r ?j)"
        using same by (auto simp: cell_at_update coerce_cell_def cell_at_def numeric_cell_def to_numeric_cell_def)
      moreover from this have "coerce_cell parse (cell_at ?r ?j) = cell_at ?r ?j"
        by (simp add: coerce_cell_idem)
      ultimately show ?thesis
        using True coerce_row_fixed [of parse ?r ?j cols hdr] by simp
    next
      case other: False
      with True Cons.prems nth_index_of have "col \<in> set cols" by (metis set_ConsD)
      then have "cell_at (coerce_row parse cols hdr ?r) ?j = coerce_cell parse (cell_at ?r ?j)"
        using Cons.prems(2) by (rule Cons.IH)
      with True other show ?thesis by (simp add: cell_at_update)
    qed
  qed
qed

lemma to_numeric_coerce_cell:
  "to_numeric_cell parse (coerce_cell parse c) = to_numeric_cell parse c"
  by (cases c) (auto simp: coerce_cell_def to_numeric_cell_def numeric_cell_def split: option.splits)

lemma fillna0_finite:
  "list_all (\<lambda>v. case v of None \<Rightarrow> True | Some n \<Rightarrow> finite_num n) vs \<Longrightarrow>
   list_all finite_num (fillna0 vs)"
  by (induction vs) (auto simp: fillna0_def finite_num_def split: option.splits)

lemma transform_data_types_rows:
  assumes d: "distinct (columns df)" and f: "year_finite parse df"
  shows "transform_data_types parse df =
     Inr (df\<lparr>rows :=
        map (\<lambda>r. let r1 = coerce_row parse numeric_columns (columns df) r in
                  if (ascii ''Year_of_Release'') \<in> set (columns df)
                  then r1[index_of (ascii ''Year_of_Release'') (columns df) :=
                            year_cell parse (cell_at r1 (index_of (ascii ''Year_of_Release'') (columns df)))]
                  else r1)
            (rows df)\<rparr>)"
proof (cases "(ascii ''Year_of_Release'') \<in> set (columns df)")
  case False
  then show ?thesis
    by (simp add: transform_data_types_def coerce_columns_rows [OF d])
next
  case True
  let ?j = "index_of (ascii ''Year_of_Release'') (columns df)"
  let ?df = "df\<lparr>rows := map (coerce_row parse numeric_columns (columns df)) (rows df)\<rparr>"
  let ?cs = "map (\<lambda>r. cell_at r ?j) (rows ?df)"
  have d': "distinct (columns ?df)" and m: "(ascii ''Year_of_Release'') \<in> set (columns ?df)"
    using d True by simp_all
  have s: "series ?df (ascii ''Year_of_Release'') = Some ?cs"
    using series_distinct [OF d' m] by simp
  have ny: "(ascii ''Year_of_Release'') \<in> set numeric_columns" by (simp add: numeric_columns_def)
  have same: "to_numeric parse ?cs = map (\<lambda>r. to_numeric_cell parse (cell_at r ?j)) (rows df)"
    by (simp add: to_numeric_def comp_def coerce_row_member [OF ny True] to_numeric_coerce_cell)
  have "list_all (\<lambda>v. case v of None \<Rightarrow> True | Some n \<Rightarrow> finite_num n) (to_numeric parse ?cs)"
    using f True unfolding same by (simp add: year_finite_def list_all_iff)
  then have fin: "list_all finite_num (fillna0 (to_numeric parse ?cs))"
    by (rule fillna0_finite)
  have a: "assign ?df (ascii ''Year_of_Release'')
             (map Num (map (\<lambda>n. IntV (to_int n)) (fillna0 (to_numeric parse ?cs)))) =
           ?df\<lparr>rows := map (\<lambda>r. r[?j := year_cell parse (cell_at r ?j)]) (rows ?df)\<rparr>"
    using assign_column [of ?df "(ascii ''Year_of_Release'')" "year_cell parse" ?j]
    by (simp add: to_numeric_def fillna0_def year_cell_def comp_def)
  show ?thesis
    using True s a fin
    by (simp add: transform_data_types_def coerce_columns_rows [OF d] astype_int_def comp_def Let_def)
qed

text \<open>
  Claim C6, as amended.  Take a dataset (its column labels pairwise distinct) whose
  \<open>Year_of_Release\<close> column, if there is one, holds no cell that reads as an infinite
  number, and a cell of one of the fixed numeric columns that holds a string without a
  numeric reading, such as \<open>N/A\<close>.  Then \<open>transform_data_types\<close> does not raise;
  \<open>to_numeric\<close> turns the cell into the missing marker, which is what the result holds at
  that position for every numeric column other than \<open>Year_of_Release\<close>; in
  \<open>Year_of_Release\<close> the missing marker is then filled with 0 and cast, so the result
  holds the integer 0 there, and every cell of that column is an integer.
\<close>

theorem coercion_of_unparsable_cell:
  assumes d: "distinct (columns D)"
    and f: "year_finite parse D"
    and i: "i < length (rows D)"
    and n: "col \<in> set numeric_columns"
    and c: "col \<in> set (columns D)"
    and s: "cell_at (rows D ! i) (index_of col (columns D)) = Str s"
    and p: "parse s = None"
  shows "\<exists>D'. transform_data_types parse D = Inr D' \<and> columns D' = columns D \<and>
           to_numeric parse [Str s] = [None] \<and> astype_int (fillna0 [None]) = Inr [IntV 0] \<and>
           cell_at (rows D' ! i) (index_of col (columns D)) =
             (if col = (ascii ''Year_of_Release'') then Num (IntV 0) else NaN) \<and>
           ((ascii ''Year_of_Release'') \<in> set (columns D) \<and> rectangular D \<longrightarrow>
              (\<forall>r \<in> set (rows D').
                 \<exists>k. cell_at r (index_of (ascii ''Year_of_Release'') (columns D)) = Num (IntV k)))"
proof -
  let ?hdr = "columns D"
  let ?jy = "index_of (ascii ''Year_of_Release'') ?hdr"
  let ?j = "index_of col ?hdr"
  let ?step = "\<lambda>r. let r1 = coerce_row parse numeric_columns ?hdr r in
                  if (ascii ''Year_of_Release'') \<in> set ?hdr
                  then r1[?jy := year_cell parse (cell_at r1 ?jy)] else r1"
  let ?D' = "D\<lparr>rows := map ?step (rows D)\<rparr>"
  have t: "transform_data_types parse D = Inr ?D'"
    by (rule transform_data_types_rows [OF d f])
  have cs: "coerce_cell parse (Str s) = NaN"
    by (simp add: coerce_cell_def to_numeric_cell_def numeric_cell_def p)
  have z: "to_int (FloatV 0) = 0"
    by (simp add: to_int_def cast_int64_def int64_min_def)
  have yn: "year_cell parse NaN = Num (IntV 0)"
    by (simp add: year_cell_def to_numeric_cell_def z)
  have steps: "to_numeric parse [Str s] = [None]" "astype_int (fillna0 [None]) = Inr [IntV 0]"
    by (simp_all add: to_numeric_def to_numeric_cell_def p astype_int_def fillna0_def z
        finite_num_def)
  let ?r = "rows D ! i"
  let ?r1 = "coerce_row parse numeric_columns ?hdr ?r"
  have r1: "cell_at ?r1 ?j = NaN"
    using coerce_row_member [OF n c, of parse ?r] s cs by simp
  have jl: "?j < length ?r" using s by (auto simp: cell_at_def split: if_splits)
  have cell: "cell_at (rows ?D' ! i) ?j = (if col = (ascii ''Year_of_Release'') then Num (IntV 0) else NaN)"
  proof (cases "col = (ascii ''Year_of_Release'')")
    case True
    then show ?thesis using i c r1 jl yn
      by (simp add: Let_def cell_at_update length_coerce_row)
  next
    case False
    have "(ascii ''Year_of_Release'') \<in> set ?hdr \<Longrightarrow> ?j \<noteq> ?jy"
      using False c index_of_inject by blast
    then show ?thesis using i False r1
      by (auto simp: Let_def cell_at_update)
  qed
  have col_int: "\<exists>k. cell_at r ?jy = Num (IntV k)"
    if y: "(ascii ''Year_of_Release'') \<in> set ?hdr" and rect: "rectangular D" and r: "r \<in> set (rows ?D')" for r
  proof -
    from r obtain r0 where r0: "r0 \<in> set (rows D)" and rr: "r = ?step r0" by auto
    from rect r0 have "length r0 = length ?hdr" by (simp add: rectangular_def list_all_iff)
    with y have "?jy < length r0" by (simp add: index_of_less)
    with y rr show ?thesis
      by (simp add: Let_def cell_at_update length_coerce_row year_cell_def)
  qed
  show ?thesis using t steps cell col_int by (intro exI [of _ ?D']) auto
qed

theorem coercion_of_unparsable_cell_witness:
  "distinct (columns raw_games) \<and> rectangular raw_games \<and> year_finite digits_only raw_games \<and>
   (ascii ''Year_of_Release'') \<in> set numeric_columns \<and> (ascii ''User_Score'') \<in> set numeric_columns \<and>
   cell_at (rows raw_games ! 1) (index_of (ascii ''Year_of_Release'') (columns raw_games)) = Str ''N/A'' \<and>
   cell_at (rows raw_games ! 1) (index_of (ascii ''User_Score'') (columns raw_games)) = Str ''tbd'' \<and>
   digits_only ''N/A'' = None \<and> digits_only ''tbd'' = None \<and>
   (\<exists>D'. transform_data_types digits_only raw_games = Inr D' \<and>
      cell_at (rows D' ! 1) 1 = Num (IntV 0) \<and>
      (\<forall>r \<in> set (rows D'). \<exists>k. cell_at r 1 = Num (IntV k))) \<and>
   (\<exists>D'. transform_data_types digits_only raw_games = Inr D' \<and> cell_at (rows D' ! 1) 3 = NaN)"
proof -
  have d: "distinct (columns raw_games)" by (simp add: raw_games_def)
  have rect: "rectangular raw_games" by (simp add: rectangular_def raw_games_def)
  have f: "year_finite digits_only raw_games"
    by (simp add: year_finite_def raw_games_def cell_at_def to_numeric_cell_def digits_only_def
        finite_num_def)
  have i: "1 < length (rows raw_games)" by (simp add: raw_games_def)
  have ny: "(ascii ''Year_of_Release'') \<in> set numeric_columns"
    and nu: "(ascii ''User_Score'') \<in> set numeric_columns"
    by (simp_all add: numeric_columns_def)
  have cy: "(ascii ''Year_of_Release'') \<in> set (columns raw_games)"
    and cu: "(ascii ''User_Score'') \<in> set (columns raw_games)"
    by (simp_all add: raw_games_def)
  have jy: "index_of (ascii ''Year_of_Release'') (columns raw_games) = 1"
    and ju: "index_of (ascii ''User_Score'') (columns raw_games) = 3"
    by (simp_all add: raw_games_def)
  have sy: "cell_at (rows raw_games ! 1) (index_of (ascii ''Year_of_Release'') (columns raw_games)) = Str ''N/A''"
    and su: "cell_at (rows raw_games ! 1) (index_of (ascii ''User_Score'') (columns raw_games)) = Str ''tbd''"
    by (simp_all add: raw_games_def cell_at_def)
  have py: "digits_only ''N/A'' = None" and pu: "digits_only ''tbd'' = None"
    by (simp_all add: digits_only_def)
  have A: "\<exists>D'. transform_data_types digits_only raw_games = Inr D' \<and>
      cell_at (rows D' ! 1) 1 = Num (IntV 0) \<and>
      (\<forall>r \<in> set (rows D'). \<exists>k. cell_at r 1 = Num (IntV k))"
    using coercion_of_unparsable_cell [where parse = digits_only and s = "''N/A''", OF d f i ny cy sy py]
      cy rect jy by auto
  have B: "\<exists>D'. transform_data_types digits_only raw_games = Inr D' \<and> cell_at (rows D' ! 1) 3 = NaN"
    using coercion_of_unparsable_cell [where parse = digits_only and s = "''tbd''", OF d f i nu cu su pu]
      ju by auto
  show ?thesis using d rect f ny nu sy su py pu A B by blast
qed

text \<open>
  Claim C6 as stated fails: when the \<open>Year_of_Release\<close> column holds \<open>N/A\<close> in one row
  and \<open>inf\<close>, which reads as the infinite float, in another, the cast to integers raises
  and \<open>transform_data_types\<close> returns no dataset.
\<close>

theorem year_cast_raises_on_infinity:
  "cell_at (rows frame_year_inf ! 0) (index_of (ascii ''Year_of_Release'') (columns frame_year_inf)) =
     Str ''N/A'' \<and>
   reads_inf ''N/A'' = None \<and> reads_inf ''inf'' = Some PosInf \<and>
   transform_data_types reads_inf frame_year_inf = Inl ValueError"
  by (simp add: frame_year_inf_def reads_inf_def transform_data_types_def numeric_columns_def
      series_def cell_at_def assign_def to_numeric_def to_numeric_cell_def numeric_cell_def
      fillna0_def astype_int_def finite_num_def)

section \<open>Properties of the loader\<close>

lemma store_present:
  "fs three_world ''creds.db'' = Some Other" "fs fifty_world ''creds.db'' = Some Other"
  "fs transformed_world ''creds.db'' = Some Other"
  by (simp_all add: three_world_def fifty_world_def transformed_world_def raw_world_def
      store_world_def)

lemma setup_sample_env:
  "fs w ''creds.db'' = Some c \<Longrightarrow>
   setup_database_connection sample_env w \<lparr>engine = None\<rparr> ''homeworks'' =
     (Inr True, sample_loader, w)"
  by (simp add: setup_database_connection_def get_connection_params_def sample_env_def
      sample_creds_def df_empty_def first_row_dict_def connection_string_of_def lookup_def
      sample_loader_def)

lemma setup_short_count_env:
  "fs w ''creds.db'' = Some c \<Longrightarrow>
   setup_database_connection short_count_env w \<lparr>engine = None\<rparr> ''homeworks'' =
     (Inr True, sample_loader, w)"
  by (simp add: setup_database_connection_def get_connection_params_def sample_env_def
      short_count_env_def sample_creds_def df_empty_def first_row_dict_def
      connection_string_of_def lookup_def sample_loader_def)

lemma setup_engine:
  "setup_database_connection ev w \<lparr>engine = None\<rparr> db = (Inr True, ld, w0) \<Longrightarrow>
   engine ld \<noteq> None \<and> w0 = w"
  by (auto simp: setup_database_connection_def get_connection_params_def
      split: option.splits sum.splits if_splits prod.splits)

text \<open>
  Claim C8, as amended.  \<open>get_connection_params\<close> never raises: it returns \<open>None\<close> when
  the credential store is unreachable (the connection fails, there is no store at the
  path, or the query raises) and the empty dictionary when the store holds no row.  For
  the store the loader uses, \<open>setup_database_connection\<close> then returns false and
  \<open>load_data\<close> returns false.
\<close>

theorem connection_params_unavailable:
  assumes "\<not> sqlite_connect ev db_path \<or> fs w db_path = None \<or>
           creds_query ev db_path = Inl err \<or>
           (creds_query ev db_path = Inr result \<and> df_empty result)"
  shows "fst (get_connection_params ev w db_path) =
           (if sqlite_connect ev db_path \<and> fs w db_path \<noteq> None \<and>
               creds_query ev db_path = Inr result
            then Some [] else None) \<and>
         (db_path = ''creds.db'' \<longrightarrow>
            fst (setup_database_connection ev w self database_name) = Inr False \<and>
            (\<forall>data. read_csv w transformed_file = Inr data \<longrightarrow>
               fst (load_data ev w transformed_file table_name max_rows) = Inr False))"
proof -
  have g: "fst (get_connection_params ev w db_path) =
           (if sqlite_connect ev db_path \<and> fs w db_path \<noteq> None \<and>
               creds_query ev db_path = Inr result
            then Some [] else None)"
    using assms by (auto simp: get_connection_params_def)
  have s: "fst (setup_database_connection ev w ld db) = Inr False"
    if "db_path = ''creds.db''" for ld db
    using g that
    by (cases "get_connection_params ev w ''creds.db''")
      (auto simp: setup_database_connection_def split: if_splits)
  have l: "fst (load_data ev w transformed_file table_name max_rows) = Inr False"
    if "db_path = ''creds.db''" and "read_csv w transformed_file = Inr data" for data
    using s [OF that(1), of "\<lparr>engine = None\<rparr>" "''homeworks''"] that(2)
    by (cases "setup_database_connection ev w \<lparr>engine = None\<rparr> ''homeworks''")
      (auto simp: load_data_def)
  show ?thesis using g s l by blast
qed

theorem connection_params_unavailable_witness:
  "sqlite_connect empty_store_env ''creds.db'' \<and> fs three_world ''creds.db'' = Some Other \<and>
   creds_query empty_store_env ''creds.db'' = Inr no_creds \<and> df_empty no_creds \<and>
   read_csv three_world ''data/processed/transformed_dataset.csv'' = Inr three_rows \<and>
   fst (get_connection_params empty_store_env three_world ''creds.db'') = Some [] \<and>
   fst (setup_database_connection empty_store_env three_world \<lparr>engine = None\<rparr> ''homeworks'') =
     Inr False \<and>
   fst (load_data empty_store_env three_world ''data/processed/transformed_dataset.csv''
     ''rakhimkulov'' 100) = Inr False"
proof -
  have c: "sqlite_connect empty_store_env ''creds.db''"
    by (simp add: empty_store_env_def sample_env_def)
  have q: "creds_query empty_store_env ''creds.db'' = Inr no_creds"
    by (simp add: empty_store_env_def)
  have e: "df_empty no_creds" by (simp add: df_empty_def no_creds_def)
  have r: "read_csv three_world ''data/processed/transformed_dataset.csv'' = Inr three_rows"
    by (simp add: read_csv_def three_world_def)
  have h: "\<not> sqlite_connect empty_store_env ''creds.db'' \<or> fs three_world ''creds.db'' = None \<or>
           creds_query empty_store_env ''creds.db'' = Inl EnvError \<or>
           (creds_query empty_store_env ''creds.db'' = Inr no_creds \<and> df_empty no_creds)"
    using q e by simp
  show ?thesis
    using connection_params_unavailable [OF h, of "\<lparr>engine = None\<rparr>" "''homeworks''"
        "''data/processed/transformed_dataset.csv''" "''rakhimkulov''" 100] c q e r store_present(1)
    by simp
qed

text \<open>
  Claim C8 as stated fails: on a store without rows the result is the empty dictionary,
  not \<open>None\<close>.
\<close>

theorem get_connection_params_empty_store:
  "creds_query empty_store_env ''creds.db'' = Inr no_creds \<and> df_empty no_creds \<and>
   fst (get_connection_params empty_store_env store_world ''creds.db'') = Some [] \<and>
   fst (get_connection_params empty_store_env store_world ''creds.db'') \<noteq> None"
  by (simp add: empty_store_env_def sample_env_def get_connection_params_def df_empty_def
      no_creds_def store_world_def)

lemma validate_output_data_mismatch:
  "expected \<noteq> 0 \<Longrightarrow> count_query ev t = Inr c \<Longrightarrow> c \<noteq> expected \<Longrightarrow>
   validate_output_data ev self t (Some expected) = False"
  by (simp add: validate_output_data_def count_mismatch_def)

text \<open>
  For every expected row count other than zero, a sink that reports a different count
  makes \<open>validate_output_data\<close> return false.  \<open>load_data\<close> passes
  \<open>min(max_rows, len(data))\<close> as the expected count, so when that is not zero and the
  sink reports another count, \<open>load_data\<close> returns false, and the table written before
  the check stays in the sink.
\<close>

lemma sink_verification_mismatch:
  assumes "expected \<noteq> 0" and "count_query ev table_name = Inr c" and "c \<noteq> expected"
  shows "validate_output_data ev self table_name (Some expected) = False \<and>
         (\<forall>w f data ld w0 max_rows.
            read_csv w f = Inr data \<and>
            setup_database_connection ev w \<lparr>engine = None\<rparr> ''homeworks'' = (Inr True, ld, w0) \<and>
            sql_write ev table_name (df_head data max_rows) \<and>
            parquet_write ev data \<and>
            min max_rows (df_len data) = expected \<longrightarrow>
            fst (load_data ev w f table_name max_rows) = Inr False \<and>
            sink (snd (load_data ev w f table_name max_rows)) table_name =
              Some (df_head data max_rows))"
proof -
  have v: "validate_output_data ev ld table_name (Some expected) = False" for ld
    using assms by (rule validate_output_data_mismatch)
  have l: "fst (load_data ev w f table_name max_rows) = Inr False \<and>
           sink (snd (load_data ev w f table_name max_rows)) table_name =
             Some (df_head data max_rows)"
    if r: "read_csv w f = Inr data"
      and s: "setup_database_connection ev w \<lparr>engine = None\<rparr> ''homeworks'' = (Inr True, ld, w0)"
      and q: "sql_write ev table_name (df_head data max_rows)"
      and p: "parquet_write ev data"
      and m: "min max_rows (df_len data) = expected"
    for w f data ld w0 max_rows
  proof -
    from setup_engine [OF s] have e: "engine ld \<noteq> None" and w0: "w0 = w" by simp_all
    show ?thesis
      using v [of ld] e
      by (auto simp: load_data_def r s w0 load_to_database_def save_to_parquet_def q p m Let_def)
  qed
  show ?thesis using v l by blast
qed

lemma sink_verification_mismatch_example:
  "min 100 (df_len fifty_rows) = 50 \<and>
   count_query short_count_env ''rakhimkulov'' = Inr 49 \<and>
   validate_output_data short_count_env sample_loader ''rakhimkulov'' (Some 50) = False \<and>
   fst (load_data short_count_env fifty_world ''data/processed/transformed_dataset.csv''
          ''rakhimkulov'' 100) = Inr False \<and>
   sink (snd (load_data short_count_env fifty_world ''data/processed/transformed_dataset.csv''
          ''rakhimkulov'' 100)) ''rakhimkulov'' = Some fifty_rows"
proof -
  have c: "count_query short_count_env ''rakhimkulov'' = Inr 49"
    by (simp add: short_count_env_def)
  have m: "min 100 (df_len fifty_rows) = 50" by (simp add: df_len_def fifty_rows_def)
  have h: "df_head fifty_rows 100 = fifty_rows" by (simp add: df_head_def fifty_rows_def)
  have r: "read_csv fifty_world ''data/processed/transformed_dataset.csv'' = Inr fifty_rows"
    by (simp add: read_csv_def fifty_world_def)
  have w: "sql_write short_count_env ''rakhimkulov'' (df_head fifty_rows 100)"
    "parquet_write short_count_env fifty_rows"
    by (simp_all add: short_count_env_def sample_env_def)
  have n: "(50::int) \<noteq> 0" "(49::int) \<noteq> 50" by simp_all
  from sink_verification_mismatch [OF n(1) c n(2), of sample_loader]
  have "validate_output_data short_count_env sample_loader ''rakhimkulov'' (Some 50) = False"
    and "fst (load_data short_count_env fifty_world ''data/processed/transformed_dataset.csv''
          ''rakhimkulov'' 100) = Inr False \<and>
         sink (snd (load_data short_count_env fifty_world ''data/processed/transformed_dataset.csv''
          ''rakhimkulov'' 100)) ''rakhimkulov'' = Some (df_head fifty_rows 100)"
    using r setup_short_count_env [OF store_present(2)] w m by blast+
  then show ?thesis using c m h by simp
qed

text \<open>
  Claim C7 fails on the code at the expected count zero.  With \<open>max_rows = 0\<close> the load
  stage expects \<open>min(0, 50) = 0\<close> rows; the test \<open>expected_rows and ...\<close> is then false
  whatever the sink reports, so a sink that reports 49 rows passes the verification and
  \<open>load_data\<close> returns true.
\<close>

theorem zero_expected_count_unverified:
  "min 0 (df_len fifty_rows) = 0 \<and>
   count_query short_count_env ''rakhimkulov'' = Inr 49 \<and>
   validate_output_data short_count_env sample_loader ''rakhimkulov'' (Some 0) = True \<and>
   fst (load_data short_count_env fifty_world ''data/processed/transformed_dataset.csv''
          ''rakhimkulov'' 0) = Inr True"
proof -
  have c: "count_query short_count_env ''rakhimkulov'' = Inr 49"
    by (simp add: short_count_env_def)
  have m: "min 0 (df_len fifty_rows) = 0" by (simp add: df_len_def fifty_rows_def)
  have v: "validate_output_data short_count_env sample_loader ''rakhimkulov'' (Some 0) = True"
    by (simp add: short_count_env_def sample_env_def sample_loader_def validate_output_data_def
        count_mismatch_def)
  have r: "read_csv fifty_world ''data/processed/transformed_dataset.csv'' = Inr fifty_rows"
    by (simp add: read_csv_def fifty_world_def)
  have w: "sql_write short_count_env t df" "parquet_write short_count_env df" for t df
    by (simp_all add: short_count_env_def sample_env_def)
  have e: "engine sample_loader \<noteq> None" by (simp add: sample_loader_def)
  have "fst (load_data short_count_env fifty_world ''data/processed/transformed_dataset.csv''
          ''rakhimkulov'' 0) = Inr True"
    using v e
    by (simp add: load_data_def r setup_short_count_env [OF store_present(2)]
        load_to_database_def save_to_parquet_def w m Let_def)
  then show ?thesis using c m v by simp
qed

lemma take_min_length: "0 \<le> n \<Longrightarrow> take (nat (min n (int (length xs)))) xs = take (nat n) xs"
  by (cases "n \<le> int (length xs)") (simp_all add: min_def)

lemma df_head_nonneg:
  "0 \<le> n \<Longrightarrow> df_head df n = df\<lparr>rows := take (nat (min n (df_len df))) (rows df)\<rparr>"
  by (simp add: df_head_def df_len_def take_min_length)

text \<open>
  Claim C5, as amended.  For every dataset and every bound \<open>max_rows\<close> that is not
  negative, a load run whose connection, sink write and columnar write succeed leaves in
  the sink table exactly the first \<open>min(max_rows, len(data))\<close> rows of the dataset, in
  order, and in the Parquet file the whole dataset.
\<close>

theorem load_truncates_sink_only:
  assumes "0 \<le> max_rows"
    and "read_csv w f = Inr data"
    and "setup_database_connection ev w \<lparr>engine = None\<rparr> ''homeworks'' = (Inr True, ld, w0)"
    and "sql_write ev table_name (df_head data max_rows)"
    and "parquet_write ev data"
  shows "sink (snd (load_data ev w f table_name max_rows)) table_name =
           Some (data\<lparr>rows := take (nat (min max_rows (df_len data))) (rows data)\<rparr>) \<and>
         fs (snd (load_data ev w f table_name max_rows)) ''data/processed/processed_data.parquet'' =
           Some (Parquet data)"
  using assms setup_engine [OF assms(3)] df_head_nonneg [OF assms(1), of data]
  by (auto simp: load_data_def load_to_database_def save_to_parquet_def Let_def)

theorem load_truncates_sink_only_witness:
  "(0::int) \<le> 2 \<and>
   read_csv three_world ''data/processed/transformed_dataset.csv'' = Inr three_rows \<and>
   sink (snd (load_data sample_env three_world ''data/processed/transformed_dataset.csv''
                ''rakhimkulov'' 2)) ''rakhimkulov'' =
     Some \<lparr>columns = [(ascii ''name'')], rows = [[Str ''a''], [Str ''b'']]\<rparr> \<and>
   fs (snd (load_data sample_env three_world ''data/processed/transformed_dataset.csv''
              ''rakhimkulov'' 2)) ''data/processed/processed_data.parquet'' =
     Some (Parquet three_rows)"
proof -
  have z: "(0::int) \<le> 2" by simp
  have r: "read_csv three_world ''data/processed/transformed_dataset.csv'' = Inr three_rows"
    by (simp add: read_csv_def three_world_def)
  have w: "sql_write sample_env ''rakhimkulov'' (df_head three_rows 2)"
    "parquet_write sample_env three_rows"
    by (simp_all add: sample_env_def)
  have t: "three_rows\<lparr>rows := take (nat (min 2 (df_len three_rows))) (rows three_rows)\<rparr> =
       \<lparr>columns = [(ascii ''name'')], rows = [[Str ''a''], [Str ''b'']]\<rparr>"
    by (simp add: three_rows_def df_len_def)
  show ?thesis
    using load_truncates_sink_only [OF z r setup_sample_env [OF store_present(1)] w] r t by simp
qed

text \<open>
  Claim C5 as stated fails for a negative bound: with \<open>max_rows = -1\<close> and three rows,
  \<open>min(max_rows, len(data))\<close> is \<open>-1\<close>, and the sink receives the first two rows.
\<close>

theorem load_to_database_negative_bound:
  "min (-1) (df_len three_rows) = -1 \<and>
   fst (load_to_database sample_env sample_loader empty_world three_rows ''rakhimkulov'' (-1)) = True \<and>
   map_option rows (sink (snd (load_to_database sample_env sample_loader empty_world three_rows
       ''rakhimkulov'' (-1))) ''rakhimkulov'') = Some [[Str ''a''], [Str ''b'']]"
  by (simp add: load_to_database_def sample_env_def sample_loader_def empty_world_def
      three_rows_def df_head_def df_len_def)

section \<open>Properties of the driver\<close>

lemma sample_env_fields:
  "gdown sample_env url = Inr (Some (Csv frame_name_only))"
  "parse_number sample_env s = None"
  "csv_write sample_env df = Inr (Csv df)"
  "parquet_write sample_env df"
  "sql_write sample_env t df"
  "count_query sample_env t = Inr 1"
  "sample_query sample_env t"
  by (simp_all add: sample_env_def)

lemma read_raw_world: "read_csv raw_world ''data/raw/raw_dataset.csv'' = Inr frame_name_only"
  by (simp add: read_csv_def raw_world_def)

lemma read_transformed_world:
  "read_csv transformed_world ''data/processed/transformed_dataset.csv'' = Inr lowered_name_only"
  by (simp add: read_csv_def transformed_world_def)

lemma raw_validation_name_only:
  "comprehensive_validation files frame_name_only ''raw'' = Inr True"
  by (simp add: comprehensive_validation_def df_empty_def frame_name_only_def
      validate_data_quality_def key_columns_def year_issues_def sales_issues_def)

lemma extraction_sample:
  "extraction_stage sample_env store_world None False = (Inr ''data/raw/raw_dataset.csv'', raw_world)"
proof -
  have d: "download_dataset sample_env store_world ''1kk5pYKqE--lqhxEAfqsks3QVpK-LP-Ta''
             ''raw_dataset.csv'' = (Inr ''data/raw/raw_dataset.csv'', raw_world)"
    by (simp add: download_dataset_def sample_env_fields path_exists_def raw_world_def Let_def)
  have v: "fst (validate_raw_data raw_world ''data/raw/raw_dataset.csv'')"
    by (simp add: validate_raw_data_def read_raw_world df_empty_def frame_name_only_def Let_def)
  have e: "extract_data sample_env store_world None ''raw_dataset.csv'' =
             (Inr ''data/raw/raw_dataset.csv'', raw_world)"
    by (simp add: extract_data_def d v)
  show ?thesis
    by (simp add: extraction_stage_def e read_raw_world raw_validation_name_only)
qed

lemma transform_name_only:
  "transform_data_types (parse_number sample_env) frame_name_only = Inr frame_name_only"
  by (simp add: transform_data_types_def numeric_columns_def frame_name_only_def)

lemma normalize_name_only:
  "normalize_column_names (py_isspace sample_env) (py_lower sample_env) frame_name_only =
     lowered_name_only"
proof -
  have "normalize_column_names ascii_isspace ascii_lower frame_name_only = lowered_name_only"
    by code_simp
  then show ?thesis by (simp add: sample_env_def)
qed

lemma transform_sample:
  "transform_data sample_env raw_world ''data/raw/raw_dataset.csv'' ''transformed_dataset.csv'' =
     (Inr ''data/processed/transformed_dataset.csv'', transformed_world)"
  by (simp add: transform_data_def read_raw_world transform_name_only normalize_name_only
      sample_env_fields transformed_world_def Let_def)

lemma load_sample:
  "load_data sample_env transformed_world ''data/processed/transformed_dataset.csv''
     ''rakhimkulov'' 100 = (Inr True, loaded_world)"
proof -
  have h: "df_head lowered_name_only 100 = lowered_name_only"
    by (simp add: df_head_def lowered_name_only_def)
  have l: "load_to_database sample_env sample_loader transformed_world lowered_name_only
             ''rakhimkulov'' 100 = (True, written_world)"
    by (simp add: load_to_database_def sample_loader_def h sample_env_fields written_world_def Let_def)
  have p: "save_to_parquet sample_env written_world lowered_name_only ''processed_data.parquet'' =
             (Some ''data/processed/processed_data.parquet'', loaded_world)"
    by (simp add: save_to_parquet_def sample_env_fields loaded_world_def Let_def)
  have v: "validate_output_data sample_env sample_loader ''rakhimkulov''
             (Some (min 100 (df_len lowered_name_only)))"
    by (simp add: validate_output_data_def sample_loader_def sample_env_fields count_mismatch_def
        df_len_def lowered_name_only_def)
  show ?thesis
    by (simp add: load_data_def read_transformed_world setup_sample_env [OF store_present(3)] l p v)
qed

lemma driver_exit_code:
  "exit_code (fst (run_etl_pipeline ev w file_id table_name max_rows skip)) =
     (if fst (pipeline_body ev w file_id table_name max_rows skip) = Inr True then 0 else 1)"
  by (auto simp: run_etl_pipeline_def exit_code_def split: prod.splits sum.splits)

text \<open>
  Claim C1 fails on the code.  In this run the download leaves a one-column dataset; its
  transformed form fails \<open>comprehensive_validation\<close> at the transformed stage (the
  required columns are missing), the driver goes on to the load stage all the same, and
  the process ends with exit code 0.
\<close>

theorem unchecked_transformed_validation:
  "read_csv transformed_world ''data/processed/transformed_dataset.csv'' = Inr lowered_name_only \<and>
   comprehensive_validation (path_exists transformed_world) lowered_name_only ''transformed'' =
     Inr False \<and>
   run_etl_pipeline sample_env store_world None ''rakhimkulov'' 100 False =
     (Returned, loaded_world) \<and>
   exit_code (fst (run_etl_pipeline sample_env store_world None ''rakhimkulov'' 100 False)) = 0"
proof -
  have v: "comprehensive_validation files lowered_name_only ''transformed'' = Inr False" for files
    by (simp add: comprehensive_validation_def lowered_name_only_def df_empty_def
        validate_schema_def required_columns_def)
  have b: "pipeline_body sample_env store_world None ''rakhimkulov'' 100 False =
             (Inr True, loaded_world)"
    by (simp add: pipeline_body_def extraction_sample transform_sample read_transformed_world v
        load_sample)
  show ?thesis
    using v b read_transformed_world by (simp add: run_etl_pipeline_def exit_code_def)
qed

end
